theory Spec2Isabelle
  imports Main "HOL-Library.AList"
begin

section \<open>Values shared by all components\<close>

text \<open>
  JSON-representable Python values.  A Python \<^verbatim>\<open>dict\<close> keeps its keys in insertion order
  and assigning to an existing key keeps the key's position, so a dict is an association
  list updated with \<^const>\<open>AList.update\<close> and read with \<^const>\<open>map_of\<close>.  Floating point
  numbers are left out of the value type: no function modelled here computes with them.
\<close>

datatype json =
    JNull
  | JBool bool
  | JInt int
  | JStr string
  | JArr "json list"
  | JObj "(string \<times> json) list"

type_synonym pydict = "(string \<times> json) list"

text \<open>The single quote character, for the messages that quote a name.\<close>

abbreviation squote :: string where
  "squote \<equiv> [CHR 0x27]"

text \<open>
  The exceptions the modelled code raises, catches or lets through.  The last three are
  subclasses of Python's \<^verbatim>\<open>BaseException\<close> but not of \<^verbatim>\<open>Exception\<close>
  (\<^verbatim>\<open>asyncio.CancelledError\<close>, \<^verbatim>\<open>KeyboardInterrupt\<close>, \<^verbatim>\<open>SystemExit\<close>): an \<^verbatim>\<open>except Exception\<close>
  clause does not catch them.  \<open>is_exception e\<close> is \<^verbatim>\<open>isinstance(e, Exception)\<close>.
  \<open>str_exn\<close> is \<^verbatim>\<open>str(e)\<close>: the message the exception was built with; for a
  \<^verbatim>\<open>KeyError\<close> it is the \<^verbatim>\<open>repr\<close> of the key, written here as the key between single
  quotes, which is what \<^verbatim>\<open>repr\<close> gives for a key without quotes, backslashes or control
  characters.
\<close>

datatype exn =
    ValueError string
  | AttributeError string
  | TypeError string
  | IndexError string
  | KeyError string
  | JSONDecodeError string
  | OtherException string
  | CancelledError string
  | KeyboardInterrupt string
  | SystemExit string

fun str_exn :: "exn \<Rightarrow> string" where
  "str_exn (ValueError m) = m"
| "str_exn (AttributeError m) = m"
| "str_exn (TypeError m) = m"
| "str_exn (IndexError m) = m"
| "str_exn (KeyError k) = squote @ k @ squote"
| "str_exn (JSONDecodeError m) = m"
| "str_exn (OtherException m) = m"
| "str_exn (CancelledError m) = m"
| "str_exn (KeyboardInterrupt m) = m"
| "str_exn (SystemExit m) = m"

fun is_exception :: "exn \<Rightarrow> bool" where
  "is_exception (CancelledError m) = False"
| "is_exception (KeyboardInterrupt m) = False"
| "is_exception (SystemExit m) = False"
| "is_exception e = True"

text \<open>Truthiness of an optional string and of an optional list, as Python's \<^verbatim>\<open>if x:\<close>.\<close>

fun truthy_str :: "string option \<Rightarrow> bool" where
  "truthy_str None = False"
| "truthy_str (Some s) = (s \<noteq> [])"

fun truthy_list :: "'a list option \<Rightarrow> bool" where
  "truthy_list None = False"
| "truthy_list (Some xs) = (xs \<noteq> [])"

section \<open>Tool Catalog: \<^verbatim>\<open>wind_api/apps/tools_registry.py\<close>\<close>

record tool_parameter =
  tp_name :: string
  tp_type :: string
  tp_description :: string
  tp_required :: bool
  tp_enum :: "string list option"
  tp_default :: "json option"

record tool_definition =
  td_name :: string
  td_description :: string
  td_parameters :: "tool_parameter list"
  td_app_id :: "string option"
  td_category :: string
  td_is_dangerous :: bool
  td_requires_auth :: bool

text \<open>
  \<^verbatim>\<open>ToolDefinition.to_openai_schema\<close>: the loop over the parameters fills the dict
  \<^verbatim>\<open>properties\<close> (a later parameter of the same name overwrites the earlier entry in
  place) and appends to the list \<^verbatim>\<open>required\<close>.
\<close>

fun openai_params_loop ::
  "tool_parameter list \<Rightarrow> pydict \<Rightarrow> string list \<Rightarrow> pydict \<times> string list" where
  "openai_params_loop [] properties required = (properties, required)"
| "openai_params_loop (param # rest) properties required =
     (let param_schema = [(''type'', JStr (tp_type param)),
                          (''description'', JStr (tp_description param))];
          param_schema = (if truthy_list (tp_enum param)
                          then AList.update ''enum'' (JArr (map JStr (the (tp_enum param)))) param_schema
                          else param_schema);
          properties = AList.update (tp_name param) (JObj param_schema) properties;
          required = (if tp_required param then required @ [tp_name param] else required)
      in openai_params_loop rest properties required)"

definition to_openai_schema :: "tool_definition \<Rightarrow> json" where
  "to_openai_schema self =
     (let (properties, required) = openai_params_loop (td_parameters self) [] []
      in JObj [(''type'', JStr ''function''),
               (''function'', JObj [(''name'', JStr (td_name self)),
                                    (''description'', JStr (td_description self)),
                                    (''parameters'', JObj [(''type'', JStr ''object''),
                                                           (''properties'', JObj properties),
                                                           (''required'', JArr (map JStr required))])])])"

text \<open>\<^verbatim>\<open>ToolDefinition.to_anthropic_schema\<close>: its own copy of the loop, over \<^verbatim>\<open>parameters\<close>.\<close>

fun anthropic_params_loop ::
  "tool_parameter list \<Rightarrow> pydict \<Rightarrow> string list \<Rightarrow> pydict \<times> string list" where
  "anthropic_params_loop [] parameters required = (parameters, required)"
| "anthropic_params_loop (param # rest) parameters required =
     (let param_schema = [(''type'', JStr (tp_type param)),
                          (''description'', JStr (tp_description param))];
          param_schema = (if truthy_list (tp_enum param)
                          then AList.update ''enum'' (JArr (map JStr (the (tp_enum param)))) param_schema
                          else param_schema);
          parameters = AList.update (tp_name param) (JObj param_schema) parameters;
          required = (if tp_required param then required @ [tp_name param] else required)
      in anthropic_params_loop rest parameters required)"

definition to_anthropic_schema :: "tool_definition \<Rightarrow> json" where
  "to_anthropic_schema self =
     (let (parameters, required) = anthropic_params_loop (td_parameters self) [] []
      in JObj [(''name'', JStr (td_name self)),
               (''description'', JStr (td_description self)),
               (''input_schema'', JObj [(''type'', JStr ''object''),
                                        (''properties'', JObj parameters),
                                        (''required'', JArr (map JStr required))])])"

text \<open>Reading a key of a JSON object: \<^verbatim>\<open>d[k]\<close> where it exists.\<close>

fun jget :: "string \<Rightarrow> json \<Rightarrow> json option" where
  "jget k (JObj d) = map_of d k"
| "jget k _ = None"

text \<open>
  \<^verbatim>\<open>ToolsRegistry\<close>: the dicts \<^verbatim>\<open>_tools\<close> and \<^verbatim>\<open>_handlers\<close> and the set \<^verbatim>\<open>_categories\<close>.
  The type of the handlers is a parameter; the dispatcher below instantiates it.
\<close>

record 'h tools_registry =
  r_tools :: "(string \<times> tool_definition) list"
  r_handlers :: "(string \<times> 'h) list"
  r_categories :: "string set"

definition new_registry :: "'h tools_registry" where
  "new_registry = \<lparr>r_tools = [], r_handlers = [], r_categories = {''system''}\<rparr>"

definition add_tool :: "'h tools_registry \<Rightarrow> tool_definition \<Rightarrow> 'h tools_registry" where
  "add_tool self tool_def =
     self\<lparr>r_tools := AList.update (td_name tool_def) tool_def (r_tools self),
          r_categories := insert (td_category tool_def) (r_categories self)\<rparr>"

text \<open>
  \<^verbatim>\<open>add_handler\<close> raises \<^verbatim>\<open>ValueError\<close> before it writes anything; the registry it leaves
  behind is returned with the outcome.
\<close>

definition add_handler ::
  "'h tools_registry \<Rightarrow> string \<Rightarrow> 'h \<Rightarrow> (exn + unit) \<times> 'h tools_registry" where
  "add_handler self tool_name handler =
     (if tool_name \<notin> fst ` set (r_tools self)
      then (Inl (ValueError (''Tool '' @ squote @ tool_name @ squote @ '' is not registered'')), self)
      else (Inr (), self\<lparr>r_handlers := AList.update tool_name handler (r_handlers self)\<rparr>))"

definition register_tool ::
  "'h tools_registry \<Rightarrow> tool_definition \<Rightarrow> 'h \<Rightarrow> (exn + unit) \<times> 'h tools_registry" where
  "register_tool self tool_def handler =
     add_handler (add_tool self tool_def) (td_name tool_def) handler"

definition list_tools :: "'h tools_registry \<Rightarrow> string option \<Rightarrow> tool_definition list" where
  "list_tools self category =
     (if truthy_str category
      then filter (\<lambda>tool. td_category tool = the category) (map snd (r_tools self))
      else map snd (r_tools self))"

definition get_tool :: "'h tools_registry \<Rightarrow> string \<Rightarrow> tool_definition option" where
  "get_tool self tool_name = map_of (r_tools self) tool_name"

definition get_openai_schemas :: "'h tools_registry \<Rightarrow> string option \<Rightarrow> json list" where
  "get_openai_schemas self category = map to_openai_schema (list_tools self category)"

definition get_anthropic_schemas :: "'h tools_registry \<Rightarrow> string option \<Rightarrow> json list" where
  "get_anthropic_schemas self category = map to_anthropic_schema (list_tools self category)"

definition can_handle :: "'h tools_registry \<Rightarrow> string \<Rightarrow> bool" where
  "can_handle self tool_name =
     (tool_name \<in> fst ` set (r_tools self) \<and> tool_name \<in> fst ` set (r_handlers self))"

text \<open>
  What every registry built by the methods above satisfies: the keys of \<^verbatim>\<open>_tools\<close> are
  distinct (it is a dict) and each definition is stored under its own name.
\<close>

definition registry_keys_ok :: "'h tools_registry \<Rightarrow> bool" where
  "registry_keys_ok self =
     (distinct (map fst (r_tools self)) \<and>
      list_all (\<lambda>(k, d). td_name d = k) (r_tools self))"

text \<open>Every name with a bound handler has a registered definition.\<close>

definition handlers_registered :: "'h tools_registry \<Rightarrow> bool" where
  "handlers_registered self = (fst ` set (r_handlers self) \<subseteq> fst ` set (r_tools self))"

text \<open>Following a path of keys into nested JSON objects.\<close>

fun jpath :: "string list \<Rightarrow> json \<Rightarrow> json option" where
  "jpath [] j = Some j"
| "jpath (k # ks) j = (case jget k j of None \<Rightarrow> None | Some v \<Rightarrow> jpath ks v)"

section \<open>Canonical messages and the external world\<close>

text \<open>
  A tool call request and a message, as the dicts the provider returns and the chat
  endpoint appends to: an absent key is \<open>None\<close>.
\<close>

record tool_call =
  tc_id :: string
  tc_name :: string
  tc_arguments :: json

record message =
  m_role :: string
  m_content :: string
  m_tool_calls :: "tool_call list option"
  m_tool_call_id :: "string option"

text \<open>\<^verbatim>\<open>ToolFunction\<close> of \<^verbatim>\<open>wind_api/agent/provider.py\<close>.\<close>

record tool_function =
  tf_name :: string
  tf_description :: string
  tf_parameters :: pydict

text \<open>
  An element of the list handed to \<^verbatim>\<open>acomplete\<close> as \<^verbatim>\<open>tools\<close>.  The parameter is annotated
  \<^verbatim>\<open>Optional[List[ToolFunction]]\<close>; the chat endpoint passes the \<^verbatim>\<open>ToolFunction\<close> objects of
  \<^verbatim>\<open>TOOL_DEFINITIONS\<close> followed by the plain dicts of \<^verbatim>\<open>get_openai_schemas()\<close>.
\<close>

datatype tool_item = ToolFunctionObj tool_function | DictObj json

text \<open>
  Everything outside the repository (the hosted completion backends, the registered
  handlers' collaborators, the browser) is a world of some type \<open>'w\<close>: an external
  operation takes the world and returns either the exception it raised or its value,
  with the world it left behind.
\<close>

type_synonym ('w, 'a) ext = "'w \<Rightarrow> (exn + 'a) \<times> 'w"

text \<open>
  Beside the world, the state carries a trace of the calls made: a call of
  \<^verbatim>\<open>LLMProvider.acomplete\<close> with its messages, tools and system prompt, an invocation of a
  registered handler (where \<^verbatim>\<open>ToolsRegistry.handle\<close> logs "Calling tool") with its name,
  arguments and context, and an invocation of a system tool method by \<^verbatim>\<open>Tools.call\<close>.
  The trace is only written, never read, by the modelled code.
\<close>

datatype event =
    EvAcomplete "message list" "tool_item list option" "string option"
  | EvHandler string json pydict
  | EvSystemMethod string pydict

record 'w state =
  world :: 'w
  trace :: "event list"

definition log_event :: "event \<Rightarrow> 'w state \<Rightarrow> 'w state" where
  "log_event ev s = s\<lparr>trace := trace s @ [ev]\<rparr>"

definition run_ext :: "('w, 'a) ext \<Rightarrow> 'w state \<Rightarrow> (exn + 'a) \<times> 'w state" where
  "run_ext f s = (case f (world s) of (r, w) \<Rightarrow> (r, s\<lparr>world := w\<rparr>))"

text \<open>A list comprehension whose element expression may raise: the first exception wins.\<close>

fun map_exn :: "('a \<Rightarrow> exn + 'b) \<Rightarrow> 'a list \<Rightarrow> exn + 'b list" where
  "map_exn f [] = Inr []"
| "map_exn f (x # xs) =
     (case f x of
        Inl e \<Rightarrow> Inl e
      | Inr y \<Rightarrow> (case map_exn f xs of Inl e \<Rightarrow> Inl e | Inr ys \<Rightarrow> Inr (y # ys)))"

text \<open>\<^verbatim>\<open>str(i)\<close> of a non-negative index, for the ids \<^verbatim>\<open>f"call_{i}"\<close>.\<close>

definition digit :: "nat \<Rightarrow> char" where
  "digit d = ''0123456789'' ! d"

function str_nat :: "nat \<Rightarrow> string" where
  "str_nat i = (if i div 10 = 0 then [digit i] else str_nat (i div 10) @ [digit (i mod 10)])"
  by pat_completeness auto
termination
  by (relation "measure id") auto

section \<open>Provider Adapter: \<^verbatim>\<open>wind_api/agent/provider.py\<close>\<close>

text \<open>
  The two client libraries at their boundary.  An OpenAI (or Azure OpenAI) client maps
  the request parameters to a response, whose \<^verbatim>\<open>choices[i].message\<close> has a content and
  tool calls with an id, a function name and the arguments as undecoded text.  An
  Anthropic client's response has content blocks with a text, and possibly a
  \<^verbatim>\<open>tool_use\<close> attribute.
\<close>

record oa_tool_call =
  oa_id :: string
  oa_function_name :: string
  oa_function_arguments :: string

record oa_message =
  oa_content :: "string option"
  oa_tool_calls :: "oa_tool_call list option"

record oa_params =
  oa_model :: string
  oa_messages :: "message list"
  oa_tools :: "json list option"

type_synonym 'w oa_client = "oa_params \<Rightarrow> ('w, oa_message list) ext"

record an_tool_use =
  tu_name :: string
  tu_input :: json

record an_response =
  an_content :: "string list"
  an_tool_use :: "an_tool_use list option"

record an_params =
  an_model :: string
  an_messages :: "message list"
  an_system :: "string option"
  an_tools :: "json list option"

type_synonym 'w an_client = "an_params \<Rightarrow> ('w, an_response) ext"

text \<open>
  The fields of \<^verbatim>\<open>wind_api.config\<close>'s settings that the adapter reads for a default model.
\<close>

record settings =
  openai_model :: string
  anthropic_model :: string
  azure_openai_deployment :: string

text \<open>
  \<^verbatim>\<open>LLMProvider\<close>: the three clients, each present when its API key is configured.  The
  module's \<^verbatim>\<open>settings\<close> object and the library function \<^verbatim>\<open>json.loads\<close> (which raises
  \<^verbatim>\<open>JSONDecodeError\<close> on text that is not JSON) are carried with it.
\<close>

record 'w llm_provider =
  openai_client :: "'w oa_client option"
  anthropic_client :: "'w an_client option"
  azure_openai_client :: "'w oa_client option"
  provider_settings :: settings
  json_loads :: "string \<Rightarrow> exn + json"

definition plain_message :: "string \<Rightarrow> string \<Rightarrow> message" where
  "plain_message r c = \<lparr>m_role = r, m_content = c, m_tool_calls = None, m_tool_call_id = None\<rparr>"

definition no_attribute :: "string \<Rightarrow> string \<Rightarrow> exn" where
  "no_attribute ty attr =
     AttributeError (squote @ ty @ squote @ '' object has no attribute '' @ squote @ attr @ squote)"

text \<open>\<^verbatim>\<open>LLMProvider.to_dict\<close>: reads \<^verbatim>\<open>tool.name\<close>, an attribute a dict does not have.\<close>

fun to_dict :: "tool_item \<Rightarrow> exn + json" where
  "to_dict (ToolFunctionObj tool) =
     Inr (JObj [(''type'', JStr ''function''),
                (''function'', JObj [(''name'', JStr (tf_name tool)),
                                     (''description'', JStr (tf_description tool)),
                                     (''parameters'', JObj (tf_parameters tool))])])"
| "to_dict (DictObj d) = Inl (no_attribute ''dict'' ''name'')"

text \<open>One element of the comprehension in \<^verbatim>\<open>_convert_to_anthropic_tools\<close>.\<close>

fun convert_to_anthropic_tool :: "tool_item \<Rightarrow> exn + json" where
  "convert_to_anthropic_tool (ToolFunctionObj tool) =
     Inr (JObj [(''name'', JStr (tf_name tool)),
                (''description'', JStr (tf_description tool)),
                (''input_schema'',
                   JObj [(''type'', JStr ''object''),
                         (''properties'', (case map_of (tf_parameters tool) ''properties'' of
                                             None \<Rightarrow> JObj [] | Some v \<Rightarrow> v)),
                         (''required'', (case map_of (tf_parameters tool) ''required'' of
                                           None \<Rightarrow> JArr [] | Some v \<Rightarrow> v))])])"
| "convert_to_anthropic_tool (DictObj d) = Inl (no_attribute ''dict'' ''name'')"

definition convert_to_anthropic_tools :: "tool_item list \<Rightarrow> exn + json list" where
  "convert_to_anthropic_tools tools = map_exn convert_to_anthropic_tool tools"

text \<open>
  The loop over \<^verbatim>\<open>message.tool_calls\<close>: arguments that do not decode are replaced by the
  error marker and the call is kept; any other exception of \<^verbatim>\<open>json.loads\<close> leaves the loop.
\<close>

fun openai_tool_calls :: "(string \<Rightarrow> exn + json) \<Rightarrow> oa_tool_call list \<Rightarrow> exn + tool_call list" where
  "openai_tool_calls loads [] = Inr []"
| "openai_tool_calls loads (tool_call # rest) =
     (case (case loads (oa_function_arguments tool_call) of
              Inr v \<Rightarrow> Inr v
            | Inl (JSONDecodeError m) \<Rightarrow> Inr (JObj [(''error'', JStr ''Failed to parse arguments'')])
            | Inl e \<Rightarrow> Inl e) of
        Inl e \<Rightarrow> Inl e
      | Inr arguments \<Rightarrow>
          (case openai_tool_calls loads rest of
             Inl e \<Rightarrow> Inl e
           | Inr tool_calls \<Rightarrow>
               Inr (\<lparr>tc_id = oa_id tool_call,
                     tc_name = oa_function_name tool_call,
                     tc_arguments = arguments\<rparr> # tool_calls)))"

text \<open>
  What the \<^verbatim>\<open>try\<close> block of \<^verbatim>\<open>_complete_with_openai\<close> (and of its Azure twin) does with
  the response: \<^verbatim>\<open>response.choices[0].message\<close>, \<^verbatim>\<open>message.content or ""\<close>, the tool calls.
\<close>

definition openai_result :: "(string \<Rightarrow> exn + json) \<Rightarrow> oa_message list \<Rightarrow> exn + message" where
  "openai_result loads choices =
     (case choices of
        [] \<Rightarrow> Inl (IndexError ''list index out of range'')
      | message # _ \<Rightarrow>
          (let result = plain_message ''assistant''
                          (case oa_content message of None \<Rightarrow> [] | Some c \<Rightarrow> c)
           in if truthy_list (oa_tool_calls message)
              then (case openai_tool_calls loads (the (oa_tool_calls message)) of
                      Inl e \<Rightarrow> Inl e
                    | Inr tool_calls \<Rightarrow> Inr (result\<lparr>m_tool_calls := Some tool_calls\<rparr>))
              else Inr result))"

text \<open>
  The \<^verbatim>\<open>except Exception\<close> clause shared by the three backends: an exception that is not an
  \<^verbatim>\<open>Exception\<close> passes through it.
\<close>

definition error_message :: "exn \<Rightarrow> message" where
  "error_message e = plain_message ''assistant'' (''Error: '' @ str_exn e)"

definition catch_all :: "(exn + message) \<times> 'w \<Rightarrow> (exn + message) \<times> 'w" where
  "catch_all r =
     (case r of
        (Inl e, w) \<Rightarrow> (if is_exception e then Inr (error_message e) else Inl e, w)
      | (Inr m, w) \<Rightarrow> (Inr m, w))"

text \<open>
  \<^verbatim>\<open>_complete_with_openai\<close>.  The request parameters, the tool list among them, are
  prepared before the \<^verbatim>\<open>try\<close>: an exception of \<^verbatim>\<open>to_dict\<close> leaves the method.
\<close>

definition complete_with_openai ::
  "'w llm_provider \<Rightarrow> message list \<Rightarrow> tool_item list option \<Rightarrow> string option \<Rightarrow> string option
   \<Rightarrow> ('w, message) ext" where
  "complete_with_openai self messages tools system model w =
     (let openai_messages = (if truthy_str system
                             then plain_message ''system'' (the system) # messages
                             else messages);
          model_name = (if truthy_str model then the model
                        else openai_model (provider_settings self))
      in case (if truthy_list tools
               then (case map_exn to_dict (the tools) of
                       Inl e \<Rightarrow> Inl e | Inr ts \<Rightarrow> Inr (Some ts))
               else Inr None) of
           Inl e \<Rightarrow> (Inl e, w)
         | Inr tools_param \<Rightarrow>
             catch_all
               (case openai_client self of
                  None \<Rightarrow> (Inl (no_attribute ''NoneType'' ''chat''), w)
                | Some client \<Rightarrow>
                    (case client \<lparr>oa_model = model_name, oa_messages = openai_messages,
                                  oa_tools = tools_param\<rparr> w of
                       (Inl e, w') \<Rightarrow> (Inl e, w')
                     | (Inr response, w') \<Rightarrow> (openai_result (json_loads self) response, w'))))"

text \<open>\<^verbatim>\<open>_complete_with_azure_openai\<close>: the same steps on the Azure client and deployment.\<close>

definition complete_with_azure_openai ::
  "'w llm_provider \<Rightarrow> message list \<Rightarrow> tool_item list option \<Rightarrow> string option \<Rightarrow> string option
   \<Rightarrow> ('w, message) ext" where
  "complete_with_azure_openai self messages tools system model w =
     (let azure_messages = (if truthy_str system
                            then plain_message ''system'' (the system) # messages
                            else messages);
          model_name = (if truthy_str model then the model
                        else azure_openai_deployment (provider_settings self))
      in case (if truthy_list tools
               then (case map_exn to_dict (the tools) of
                       Inl e \<Rightarrow> Inl e | Inr ts \<Rightarrow> Inr (Some ts))
               else Inr None) of
           Inl e \<Rightarrow> (Inl e, w)
         | Inr tools_param \<Rightarrow>
             catch_all
               (case azure_openai_client self of
                  None \<Rightarrow> (Inl (no_attribute ''NoneType'' ''chat''), w)
                | Some client \<Rightarrow>
                    (case client \<lparr>oa_model = model_name, oa_messages = azure_messages,
                                  oa_tools = tools_param\<rparr> w of
                       (Inl e, w') \<Rightarrow> (Inl e, w')
                     | (Inr response, w') \<Rightarrow> (openai_result (json_loads self) response, w'))))"

text \<open>
  \<^verbatim>\<open>_complete_with_anthropic\<close>: only user and assistant messages are passed on, the
  system prompt goes in its own parameter, and tool calls get the ids \<^verbatim>\<open>call_0\<close>,
  \<^verbatim>\<open>call_1\<close>, ...
\<close>

fun anthropic_messages_of :: "message list \<Rightarrow> message list" where
  "anthropic_messages_of [] = []"
| "anthropic_messages_of (msg # rest) =
     (if m_role msg = ''user'' then plain_message ''user'' (m_content msg) # anthropic_messages_of rest
      else if m_role msg = ''assistant''
           then plain_message ''assistant'' (m_content msg) # anthropic_messages_of rest
      else anthropic_messages_of rest)"

definition anthropic_result :: "an_response \<Rightarrow> exn + message" where
  "anthropic_result response =
     (case an_content response of
        [] \<Rightarrow> Inl (IndexError ''list index out of range'')
      | text # _ \<Rightarrow>
          (let result = plain_message ''assistant'' text
           in if truthy_list (an_tool_use response)
              then (let tool_calls =
                          map (\<lambda>(i, tool_use). \<lparr>tc_id = ''call_'' @ str_nat i,
                                                tc_name = tu_name tool_use,
                                                tc_arguments = tu_input tool_use\<rparr>)
                              (enumerate 0 (the (an_tool_use response)))
                    in if tool_calls \<noteq> [] then Inr (result\<lparr>m_tool_calls := Some tool_calls\<rparr>)
                       else Inr result)
              else Inr result))"

definition complete_with_anthropic ::
  "'w llm_provider \<Rightarrow> message list \<Rightarrow> tool_item list option \<Rightarrow> string option \<Rightarrow> string option
   \<Rightarrow> ('w, message) ext" where
  "complete_with_anthropic self messages tools system model w =
     (let anthropic_messages = anthropic_messages_of messages;
          model_name = (if truthy_str model then the model
                        else anthropic_model (provider_settings self));
          system_param = (if truthy_str system then system else None)
      in case (if truthy_list tools
               then (case convert_to_anthropic_tools (the tools) of
                       Inl e \<Rightarrow> Inl e | Inr ts \<Rightarrow> Inr (Some ts))
               else Inr None) of
           Inl e \<Rightarrow> (Inl e, w)
         | Inr tools_param \<Rightarrow>
             catch_all
               (case anthropic_client self of
                  None \<Rightarrow> (Inl (no_attribute ''NoneType'' ''messages''), w)
                | Some client \<Rightarrow>
                    (case client \<lparr>an_model = model_name, an_messages = anthropic_messages,
                                  an_system = system_param, an_tools = tools_param\<rparr> w of
                       (Inl e, w') \<Rightarrow> (Inl e, w')
                     | (Inr response, w') \<Rightarrow> (anthropic_result response, w'))))"

text \<open>
  \<^verbatim>\<open>_mock_response\<close>: the last user message is searched from the end of the history;
  with a non-empty tool list, \<^verbatim>\<open>first_tool.name\<close> is read from its first element.
\<close>

definition mock_response ::
  "'w llm_provider \<Rightarrow> message list \<Rightarrow> tool_item list option \<Rightarrow> exn + message" where
  "mock_response self messages tools =
     (let last_user_message =
            (case find (\<lambda>msg. m_role msg = ''user'') (rev messages) of
               None \<Rightarrow> ''No user message found''
             | Some msg \<Rightarrow> m_content msg);
          response =
            plain_message ''assistant''
              (''[MOCK RESPONSE] I received your message: '' @ squote @ last_user_message @ squote
               @ ''. Please configure an LLM provider API key to get real responses.'')
      in case tools of
           Some (ToolFunctionObj first_tool # _) \<Rightarrow>
             Inr (response\<lparr>m_tool_calls :=
                    Some [\<lparr>tc_id = ''mock_tool_call_1'', tc_name = tf_name first_tool,
                           tc_arguments = JObj []\<rparr>]\<rparr>)
         | Some (DictObj d # _) \<Rightarrow> Inl (no_attribute ''dict'' ''name'')
         | _ \<Rightarrow> Inr response)"

text \<open>A tool list as the signature of \<^verbatim>\<open>acomplete\<close> declares it: no plain dicts.\<close>

definition only_tool_functions :: "tool_item list option \<Rightarrow> bool" where
  "only_tool_functions tools =
     (case tools of None \<Rightarrow> True
      | Some ts \<Rightarrow> list_all (\<lambda>t. case t of ToolFunctionObj f \<Rightarrow> True | DictObj d \<Rightarrow> False) ts)"

text \<open>
  \<^verbatim>\<open>acomplete\<close>: the first configured backend wins, in the order OpenAI, Anthropic, Azure
  OpenAI; with none configured, the mock response.
\<close>

definition acomplete ::
  "'w llm_provider \<Rightarrow> message list \<Rightarrow> tool_item list option \<Rightarrow> string option \<Rightarrow> string option
   \<Rightarrow> 'w state \<Rightarrow> (exn + message) \<times> 'w state" where
  "acomplete self messages tools system model s0 =
     (let s = log_event (EvAcomplete messages tools system) s0
      in if openai_client self \<noteq> None
         then run_ext (complete_with_openai self messages tools system model) s
         else if anthropic_client self \<noteq> None
         then run_ext (complete_with_anthropic self messages tools system model) s
         else if azure_openai_client self \<noteq> None
         then run_ext (complete_with_azure_openai self messages tools system model) s
         else (mock_response self messages tools, s))"

section \<open>System tools: \<^verbatim>\<open>wind_api/agent/tools.py\<close>\<close>

text \<open>\<^verbatim>\<open>TOOL_DEFINITIONS\<close>, the six built-in tools offered to the model.\<close>

definition string_property :: "string \<Rightarrow> json" where
  "string_property description = JObj [(''type'', JStr ''string''), (''description'', JStr description)]"

definition timeout_property :: json where
  "timeout_property =
     JObj [(''type'', JStr ''integer''),
           (''description'', JStr ''Maximum time to wait for the element in milliseconds''),
           (''default'', JInt 5000)]"

definition TOOL_DEFINITIONS :: "tool_function list" where
  "TOOL_DEFINITIONS =
     [\<lparr>tf_name = ''web.navigate'', tf_description = ''Navigate to a URL in the browser'',
       tf_parameters =
         [(''type'', JStr ''object''),
          (''properties'', JObj [(''url'', string_property ''The URL to navigate to'')]),
          (''required'', JArr [JStr ''url''])]\<rparr>,
      \<lparr>tf_name = ''ui.click'', tf_description = ''Click on an element in the current page'',
       tf_parameters =
         [(''type'', JStr ''object''),
          (''properties'',
             JObj [(''selector'', string_property ''CSS selector or text content of the element to click''),
                   (''timeout'', timeout_property)]),
          (''required'', JArr [JStr ''selector''])]\<rparr>,
      \<lparr>tf_name = ''ui.type'', tf_description = ''Type text into an input field'',
       tf_parameters =
         [(''type'', JStr ''object''),
          (''properties'',
             JObj [(''selector'', string_property ''CSS selector of the input field''),
                   (''text'', string_property ''Text to type into the field''),
                   (''timeout'', timeout_property)]),
          (''required'', JArr [JStr ''selector'', JStr ''text''])]\<rparr>,
      \<lparr>tf_name = ''web.search'', tf_description = ''Perform a web search using DuckDuckGo'',
       tf_parameters =
         [(''type'', JStr ''object''),
          (''properties'', JObj [(''query'', string_property ''Search query'')]),
          (''required'', JArr [JStr ''query''])]\<rparr>,
      \<lparr>tf_name = ''web.extract'', tf_description = ''Extract text from elements matching a selector'',
       tf_parameters =
         [(''type'', JStr ''object''),
          (''properties'',
             JObj [(''selector'', string_property ''CSS selector for elements to extract text from'')]),
          (''required'', JArr [JStr ''selector''])]\<rparr>,
      \<lparr>tf_name = ''ui.screenshot'',
       tf_description = ''Take a screenshot of the current page or a specific element'',
       tf_parameters =
         [(''type'', JStr ''object''),
          (''properties'',
             JObj [(''path'', string_property ''Path where to save the screenshot (optional)''),
                   (''selector'', string_property ''CSS selector of the element to screenshot (optional)'')])]\<rparr>]"

text \<open>
  \<^verbatim>\<open>Tools\<close>: entering the context manager starts the browser, leaving it closes it, and
  the six tool methods drive it; all of that is the world's.  A method is called with
  keyword arguments and either returns its result or raises.
\<close>

record 'w tools =
  aenter :: "('w, unit) ext"
  aexit :: "('w, unit) ext"
  web_navigate :: "pydict \<Rightarrow> ('w, json) ext"
  ui_click :: "pydict \<Rightarrow> ('w, json) ext"
  ui_type :: "pydict \<Rightarrow> ('w, json) ext"
  web_search :: "pydict \<Rightarrow> ('w, json) ext"
  web_extract :: "pydict \<Rightarrow> ('w, json) ext"
  ui_screenshot :: "pydict \<Rightarrow> ('w, json) ext"

definition tool_map :: "'w tools \<Rightarrow> (string \<times> (pydict \<Rightarrow> ('w, json) ext)) list" where
  "tool_map self =
     [(''web.navigate'', web_navigate self),
      (''ui.click'', ui_click self),
      (''ui.type'', ui_type self),
      (''web.search'', web_search self),
      (''web.extract'', web_extract self),
      (''ui.screenshot'', ui_screenshot self)]"

text \<open>
  \<^verbatim>\<open>Tools.call\<close>: an unknown name raises \<^verbatim>\<open>ValueError\<close>; the method's own exceptions are
  caught by \<^verbatim>\<open>except Exception\<close> and returned as a failure dict.
\<close>

definition tools_call :: "'w tools \<Rightarrow> string \<Rightarrow> pydict \<Rightarrow> 'w state \<Rightarrow> (exn + json) \<times> 'w state" where
  "tools_call self name kwargs s =
     (case map_of (tool_map self) name of
        None \<Rightarrow> (Inl (ValueError (''Unknown tool: '' @ name)), s)
      | Some method \<Rightarrow>
          (case run_ext (method kwargs) (log_event (EvSystemMethod name kwargs) s) of
             (Inr result, s') \<Rightarrow>
               (Inr (JObj [(''success'', JBool True), (''result'', result)]), s')
           | (Inl e, s') \<Rightarrow>
               (if is_exception e
                then Inr (JObj [(''success'', JBool False), (''error'', JStr (str_exn e))])
                else Inl e, s')))"

text \<open>
  The call \<^verbatim>\<open>tools.call(tool_name, **tool_args)\<close>: the arguments must be a mapping, and a
  key \<^verbatim>\<open>self\<close> or \<^verbatim>\<open>name\<close> collides with the method's own parameters; both are a
  \<^verbatim>\<open>TypeError\<close> raised at the call.  The interpreter's message names the function with its
  qualified name, which depends on the Python version; the text here starts at
  \<^verbatim>\<open>call()\<close>.
\<close>

fun type_name :: "json \<Rightarrow> string" where
  "type_name JNull = ''NoneType''"
| "type_name (JBool b) = ''bool''"
| "type_name (JInt i) = ''int''"
| "type_name (JStr s) = ''str''"
| "type_name (JArr xs) = ''list''"
| "type_name (JObj d) = ''dict''"

definition tools_call_kwargs :: "'w tools \<Rightarrow> string \<Rightarrow> json \<Rightarrow> 'w state \<Rightarrow> (exn + json) \<times> 'w state" where
  "tools_call_kwargs self tool_name tool_args s =
     (case tool_args of
        JObj kwargs \<Rightarrow>
          (if ''self'' \<in> fst ` set kwargs
           then (Inl (TypeError (''call() got multiple values for argument '' @ squote
                                 @ ''self'' @ squote)), s)
           else if ''name'' \<in> fst ` set kwargs
           then (Inl (TypeError (''call() got multiple values for argument '' @ squote
                                 @ ''name'' @ squote)), s)
           else tools_call self tool_name kwargs s)
      | _ \<Rightarrow> (Inl (TypeError (''call() argument after ** must be a mapping, not ''
                              @ type_name tool_args)), s))"

section \<open>Tool Dispatcher: \<^verbatim>\<open>ToolsRegistry.handle\<close>\<close>

text \<open>
  A registered handler takes the arguments and the context.  Coroutine handlers are
  awaited and the others run in the executor; either way the call returns the
  handler's result or raises its exception.  \<^verbatim>\<open>handle\<close> catches the handler's exception
  with \<^verbatim>\<open>except Exception\<close>: one that is not an \<^verbatim>\<open>Exception\<close> leaves \<^verbatim>\<open>handle\<close>.
\<close>

type_synonym 'w handler = "json \<Rightarrow> pydict \<Rightarrow> ('w, json) ext"

definition handle ::
  "'w handler tools_registry \<Rightarrow> string \<Rightarrow> json \<Rightarrow> pydict option \<Rightarrow> 'w state
   \<Rightarrow> (exn + json) \<times> 'w state" where
  "handle self tool_name args context s =
     (if \<not> can_handle self tool_name
      then (Inl (ValueError (''Tool '' @ squote @ tool_name @ squote @ '' cannot be handled'')), s)
      else case map_of (r_handlers self) tool_name of
             None \<Rightarrow> (Inl (KeyError tool_name), s)
           | Some handler \<Rightarrow>
               (let context = (case context of None \<Rightarrow> [] | Some c \<Rightarrow> c)
                in case run_ext (handler args context)
                          (log_event (EvHandler tool_name args context) s) of
                     (Inr result, s') \<Rightarrow>
                       (Inr (JObj [(''status'', JStr ''success''), (''data'', result)]), s')
                   | (Inl e, s') \<Rightarrow>
                       (if is_exception e
                        then Inr (JObj [(''status'', JStr ''error''),
                                        (''error'', JStr (str_exn e))])
                        else Inl e, s')))"

section \<open>Conversation Orchestrator: \<^verbatim>\<open>chat\<close> of \<^verbatim>\<open>wind_api/main.py\<close>\<close>

record chat_request =
  req_messages :: "message list"
  req_workspace_id :: "string option"
  req_user_id :: "string option"
  req_streaming :: bool

text \<open>The entries of \<^verbatim>\<open>tool_results\<close> and of the step log \<^verbatim>\<open>steps\<close> (tagged by \<^verbatim>\<open>"type"\<close>).\<close>

record tool_result =
  tr_tool_call_id :: string
  tr_name :: string
  tr_arguments :: json
  tr_result :: json

datatype step =
    StepInput "message list"
  | StepLlmResponse message
  | StepToolCall tool_call json
  | StepToolError tool_call string
  | StepFinalResponse message

fun step_type :: "step \<Rightarrow> string" where
  "step_type (StepInput _) = ''input''"
| "step_type (StepLlmResponse _) = ''llm_response''"
| "step_type (StepToolCall _ _) = ''tool_call''"
| "step_type (StepToolError _ _) = ''tool_error''"
| "step_type (StepFinalResponse _) = ''final_response''"

record chat_response =
  resp_message :: message
  resp_steps :: "step list"

text \<open>
  What the module \<^verbatim>\<open>main.py\<close> works with: the provider that \<^verbatim>\<open>LLMProvider()\<close> builds from
  the configuration, the global catalog \<^verbatim>\<open>app_tools_registry\<close>, the system tools that
  \<^verbatim>\<open>Tools()\<close> gives, the constant \<^verbatim>\<open>WIND_SYSTEM_PROMPT\<close> (its module is not among the
  sources) and the library function \<^verbatim>\<open>json.dumps\<close>.
\<close>

record 'w app =
  app_provider :: "'w llm_provider"
  app_tools_registry :: "'w handler tools_registry"
  app_tools :: "'w tools"
  wind_system_prompt :: string
  json_dumps :: "json \<Rightarrow> string"

text \<open>
  The body of the loop over \<^verbatim>\<open>response["tool_calls"]\<close>: a call the catalog can handle goes
  to \<^verbatim>\<open>handle\<close> with the context \<^verbatim>\<open>{"user_id": request.user_id or "default_user"}\<close>, any other to the system
  tools; an \<^verbatim>\<open>Exception\<close> of either is caught and recorded, and the call then yields one
  entry of \<^verbatim>\<open>tool_results\<close> and one step.  Any other exception leaves the loop body.
\<close>

definition user_context :: "chat_request \<Rightarrow> pydict" where
  "user_context request =
     [(''user_id'', JStr (if truthy_str (req_user_id request) then the (req_user_id request)
                          else ''default_user''))]"

definition run_tool_call ::
  "'w app \<Rightarrow> chat_request \<Rightarrow> tool_call \<Rightarrow> 'w state
   \<Rightarrow> (exn + tool_result \<times> step) \<times> 'w state" where
  "run_tool_call app request tool_call s =
     (let tool_name = tc_name tool_call;
          tool_args = tc_arguments tool_call
      in case (if can_handle (app_tools_registry app) tool_name
               then handle (app_tools_registry app) tool_name tool_args
                      (Some (user_context request)) s
               else tools_call_kwargs (app_tools app) tool_name tool_args s) of
           (Inr result, s') \<Rightarrow>
             (Inr (\<lparr>tr_tool_call_id = tc_id tool_call, tr_name = tool_name,
                    tr_arguments = tool_args, tr_result = result\<rparr>,
                   StepToolCall tool_call result), s')
         | (Inl e, s') \<Rightarrow>
             (if is_exception e
              then Inr (\<lparr>tr_tool_call_id = tc_id tool_call, tr_name = tool_name,
                         tr_arguments = tool_args,
                         tr_result = JObj [(''success'', JBool False),
                                           (''error'', JStr (str_exn e))]\<rparr>,
                        StepToolError tool_call (str_exn e))
              else Inl e, s'))"

text \<open>The loop: an exception that leaves its body ends it, with the calls after it not made.\<close>

fun run_tool_calls ::
  "'w app \<Rightarrow> chat_request \<Rightarrow> tool_call list \<Rightarrow> 'w state
   \<Rightarrow> (exn + (tool_result \<times> step) list) \<times> 'w state" where
  "run_tool_calls app request [] s = (Inr [], s)"
| "run_tool_calls app request (tool_call # rest) s =
     (case run_tool_call app request tool_call s of
        (Inl e, s') \<Rightarrow> (Inl e, s')
      | (Inr r, s') \<Rightarrow>
          (case run_tool_calls app request rest s' of
             (Inl e, s'') \<Rightarrow> (Inl e, s'')
           | (Inr rs, s'') \<Rightarrow> (Inr (r # rs), s'')))"

definition tool_result_message :: "(json \<Rightarrow> string) \<Rightarrow> tool_result \<Rightarrow> message" where
  "tool_result_message dumps result =
     \<lparr>m_role = ''tool'', m_content = dumps (tr_result result), m_tool_calls = None,
      m_tool_call_id = Some (tr_tool_call_id result)\<rparr>"

definition combined_tool_schemas :: "'w app \<Rightarrow> tool_item list" where
  "combined_tool_schemas app =
     map ToolFunctionObj TOOL_DEFINITIONS
     @ map DictObj (get_openai_schemas (app_tools_registry app) None)"

text \<open>
  \<^verbatim>\<open>chat\<close>.  An exception that nothing catches (of a completion call, of entering or
  leaving \<^verbatim>\<open>Tools()\<close>, or one that left the loop over the tool calls) is the outcome
  \<open>Inl\<close>; when the loop raises, the context manager is left first (\<^verbatim>\<open>__aexit__\<close> returns
  nothing, so the exception goes on, unless leaving raises one of its own).  The input
  step holds the list \<^verbatim>\<open>messages\<close> itself, to which the tool messages are appended
  later, so in the returned steps it shows the extended list.
\<close>

definition chat :: "'w app \<Rightarrow> chat_request \<Rightarrow> 'w state \<Rightarrow> (exn + chat_response) \<times> 'w state" where
  "chat app request s =
     (let messages = req_messages request
      in case acomplete (app_provider app) messages (Some (combined_tool_schemas app))
                (Some (wind_system_prompt app)) None s of
           (Inl e, s1) \<Rightarrow> (Inl e, s1)
         | (Inr response, s1) \<Rightarrow>
             if truthy_list (m_tool_calls response)
             then (case run_ext (aenter (app_tools app)) s1 of
                     (Inl e, s2) \<Rightarrow> (Inl e, s2)
                   | (Inr _, s2) \<Rightarrow>
                       (case run_tool_calls app request (the (m_tool_calls response)) s2 of
                          (Inl e, s3) \<Rightarrow>
                            (case run_ext (aexit (app_tools app)) s3 of
                               (Inl e', s4) \<Rightarrow> (Inl e', s4)
                             | (Inr _, s4) \<Rightarrow> (Inl e, s4))
                        | (Inr outcomes, s3) \<Rightarrow>
                            (case run_ext (aexit (app_tools app)) s3 of
                               (Inl e, s4) \<Rightarrow> (Inl e, s4)
                             | (Inr _, s4) \<Rightarrow>
                                 (let tool_results = map fst outcomes;
                                      messages = messages
                                        @ map (tool_result_message (json_dumps app)) tool_results
                                  in case acomplete (app_provider app) messages None
                                            (Some (wind_system_prompt app)) None s4 of
                                       (Inl e, s5) \<Rightarrow> (Inl e, s5)
                                     | (Inr final_response, s5) \<Rightarrow>
                                         (Inr \<lparr>resp_message = final_response,
                                               resp_steps =
                                                 [StepInput messages, StepLlmResponse response]
                                                 @ map snd outcomes
                                                 @ [StepFinalResponse final_response]\<rparr>,
                                          s5)))))
             else (Inr \<lparr>resp_message = response,
                        resp_steps = [StepInput messages, StepLlmResponse response]\<rparr>, s1))"

section \<open>Observing a turn\<close>

text \<open>
  The events a run of \<^verbatim>\<open>chat\<close> adds to the trace, the completion calls among them
  (messages, tools, system prompt), and the tool calls the first completion requested.
\<close>

definition is_dispatch :: "event \<Rightarrow> bool" where
  "is_dispatch ev = (case ev of EvAcomplete _ _ _ \<Rightarrow> False | _ \<Rightarrow> True)"

definition new_events :: "'w app \<Rightarrow> chat_request \<Rightarrow> 'w state \<Rightarrow> event list" where
  "new_events app request s = drop (length (trace s)) (trace (snd (chat app request s)))"

fun acomplete_calls ::
  "event list \<Rightarrow> (message list \<times> tool_item list option \<times> string option) list" where
  "acomplete_calls [] = []"
| "acomplete_calls (EvAcomplete msgs tools sys # evs) = (msgs, tools, sys) # acomplete_calls evs"
| "acomplete_calls (_ # evs) = acomplete_calls evs"

definition first_completion :: "'w app \<Rightarrow> chat_request \<Rightarrow> 'w state \<Rightarrow> exn + message" where
  "first_completion app request s =
     fst (acomplete (app_provider app) (req_messages request) (Some (combined_tool_schemas app))
            (Some (wind_system_prompt app)) None s)"

definition requested_tool_calls :: "'w app \<Rightarrow> chat_request \<Rightarrow> 'w state \<Rightarrow> tool_call list" where
  "requested_tool_calls app request s =
     (case first_completion app request s of
        Inl e \<Rightarrow> []
      | Inr response \<Rightarrow> (case m_tool_calls response of None \<Rightarrow> [] | Some tcs \<Rightarrow> tcs))"

text \<open>How many of the requests carry the id a tool message refers to.\<close>

definition matching_requests :: "tool_call list \<Rightarrow> message \<Rightarrow> nat" where
  "matching_requests tcs m = length (filter (\<lambda>tc. m_tool_call_id m = Some (tc_id tc)) tcs)"

section \<open>The step trace ordering\<close>

text \<open>
  A tool step is a \<^verbatim>\<open>tool_call\<close> or \<^verbatim>\<open>tool_error\<close> step.  A step list is ordered when its
  first step is the input step and, if it has a tool step, every tool step has a
  \<^verbatim>\<open>final_response\<close> step somewhere after it, and otherwise its last step is the
  \<^verbatim>\<open>llm_response\<close> step.
\<close>

definition is_tool_step :: "step \<Rightarrow> bool" where
  "is_tool_step st = (step_type st = ''tool_call'' \<or> step_type st = ''tool_error'')"

fun final_response_follows :: "step list \<Rightarrow> bool" where
  "final_response_follows [] = True"
| "final_response_follows (st # rest) =
     ((is_tool_step st \<longrightarrow> list_ex (\<lambda>st'. step_type st' = ''final_response'') rest)
      \<and> final_response_follows rest)"

definition step_trace_ordered :: "step list \<Rightarrow> bool" where
  "step_trace_ordered steps =
     (case steps of
        [] \<Rightarrow> False
      | first # _ \<Rightarrow>
          step_type first = ''input''
          \<and> (if list_ex is_tool_step steps then final_response_follows steps
              else step_type (last steps) = ''llm_response''))"

section \<open>Example inputs\<close>

text \<open>
  Concrete tool definitions, handlers, system tools and applications on which the
  theorems below are instantiated.  The world of the examples counts the external
  operations performed.
\<close>

definition social_post_v1 :: tool_definition where
  "social_post_v1 =
     \<lparr>td_name = ''social.post'', td_description = ''Create a post'',
      td_parameters = [\<lparr>tp_name = ''content'', tp_type = ''string'',
                        tp_description = ''Text of the post'', tp_required = True,
                        tp_enum = None, tp_default = None\<rparr>],
      td_app_id = None, td_category = ''system'', td_is_dangerous = False,
      td_requires_auth = False\<rparr>"

definition social_post_v2 :: tool_definition where
  "social_post_v2 =
     \<lparr>td_name = ''social.post'', td_description = ''Create a new social media post'',
      td_parameters = [\<lparr>tp_name = ''content'', tp_type = ''string'',
                        tp_description = ''The content of the post'', tp_required = True,
                        tp_enum = None, tp_default = None\<rparr>,
                       \<lparr>tp_name = ''visibility'', tp_type = ''string'',
                        tp_description = ''Who can see the post'', tp_required = False,
                        tp_enum = Some [''public'', ''private''], tp_default = None\<rparr>],
      td_app_id = Some ''social'', td_category = ''social'', td_is_dangerous = False,
      td_requires_auth = True\<rparr>"

definition example_settings :: settings where
  "example_settings =
     \<lparr>openai_model = ''gpt-4o'', anthropic_model = ''claude-3-opus'',
      azure_openai_deployment = ''wind''\<rparr>"

definition example_loads :: "string \<Rightarrow> exn + json" where
  "example_loads text =
     (if text = ''{}'' then Inr (JObj []) else Inl (JSONDecodeError ''Expecting value''))"

definition mock_provider :: "nat llm_provider" where
  "mock_provider =
     \<lparr>openai_client = None, anthropic_client = None, azure_openai_client = None,
      provider_settings = example_settings, json_loads = example_loads\<rparr>"

definition example_tools :: "nat tools" where
  "example_tools =
     \<lparr>aenter = (\<lambda>w. (Inr (), Suc w)),
      aexit = (\<lambda>w. (Inr (), Suc w)),
      web_navigate = (\<lambda>kwargs w. case map_of kwargs ''url'' of
                                     None \<Rightarrow> (Inl (TypeError ''missing argument: url''), w)
                                   | Some u \<Rightarrow> (Inr (JObj [(''url'', u)]), Suc w)),
      ui_click = (\<lambda>kwargs w. (Inl (ValueError ''Browser not initialized''), w)),
      ui_type = (\<lambda>kwargs w. (Inl (ValueError ''Browser not initialized''), w)),
      web_search = (\<lambda>kwargs w. (Inl (ValueError ''Browser not initialized''), w)),
      web_extract = (\<lambda>kwargs w. (Inl (ValueError ''Browser not initialized''), w)),
      ui_screenshot = (\<lambda>kwargs w. (Inl (ValueError ''Browser not initialized''), w))\<rparr>"

definition example_dumps :: "json \<Rightarrow> string" where
  "example_dumps j =
     (case jget ''status'' j of
        Some (JStr st) \<Rightarrow> ''{status: '' @ st @ ''}''
      | _ \<Rightarrow> (case jget ''success'' j of
                 Some (JBool True) \<Rightarrow> ''{success: true}''
               | _ \<Rightarrow> ''{success: false}''))"

definition ok_handler :: "nat handler" where
  "ok_handler args context w = (Inr (JObj [(''ok'', JBool True)]), Suc w)"

definition failing_handler :: "nat handler" where
  "failing_handler args context w = (Inl (ValueError ''boom''), Suc w)"


definition social_list :: tool_definition where
  "social_list =
     \<lparr>td_name = ''social.list'', td_description = ''List social media posts'',
      td_parameters = [], td_app_id = Some ''social'', td_category = ''social'',
      td_is_dangerous = False, td_requires_auth = True\<rparr>"

definition example_registry :: "nat handler tools_registry" where
  "example_registry =
     snd (register_tool (snd (register_tool new_registry social_post_v2 failing_handler))
            social_list ok_handler)"



definition mock_app :: "nat app" where
  "mock_app =
     \<lparr>app_provider = mock_provider, app_tools_registry = example_registry,
      app_tools = example_tools, wind_system_prompt = ''You are Wind.'',
      json_dumps = example_dumps\<rparr>"

definition hello_request :: chat_request where
  "hello_request =
     \<lparr>req_messages = [plain_message ''user'' ''Hello''], req_workspace_id = None,
      req_user_id = None, req_streaming = False\<rparr>"

definition initial_state :: "nat state" where
  "initial_state = \<lparr>world = 0, trace = []\<rparr>"

text \<open>
  A scripted OpenAI backend: offered tools, it asks for two tool calls with the given
  ids; offered none, it answers in text.
\<close>

definition scripted_client :: "string \<Rightarrow> string \<Rightarrow> nat oa_client" where
  "scripted_client id1 id2 params w =
     (if oa_tools params \<noteq> None
      then (Inr [\<lparr>oa_content = None,
                  oa_tool_calls =
                    Some [\<lparr>oa_id = id1, oa_function_name = ''web.navigate'',
                           oa_function_arguments = ''{}''\<rparr>,
                          \<lparr>oa_id = id2, oa_function_name = ''web.fly'',
                           oa_function_arguments = ''{}''\<rparr>]\<rparr>], Suc w)
      else (Inr [\<lparr>oa_content = Some ''Done.'', oa_tool_calls = None\<rparr>], Suc w))"

definition openai_provider :: "string \<Rightarrow> string \<Rightarrow> nat llm_provider" where
  "openai_provider id1 id2 =
     \<lparr>openai_client = Some (scripted_client id1 id2), anthropic_client = None,
      azure_openai_client = None, provider_settings = example_settings,
      json_loads = example_loads\<rparr>"

text \<open>An application whose catalog is empty, and one with the example catalog.\<close>

definition openai_app :: "string \<Rightarrow> string \<Rightarrow> nat app" where
  "openai_app id1 id2 =
     \<lparr>app_provider = openai_provider id1 id2, app_tools_registry = new_registry,
      app_tools = example_tools, wind_system_prompt = ''You are Wind.'',
      json_dumps = example_dumps\<rparr>"

definition openai_app_with_catalog :: "nat app" where
  "openai_app_with_catalog =
     \<lparr>app_provider = openai_provider ''call_1'' ''call_2'', app_tools_registry = example_registry,
      app_tools = example_tools, wind_system_prompt = ''You are Wind.'',
      json_dumps = example_dumps\<rparr>"


definition list_call :: tool_call where
  "list_call = \<lparr>tc_id = ''call_2'', tc_name = ''social.list'', tc_arguments = JObj []\<rparr>"

definition fly_call :: tool_call where
  "fly_call = \<lparr>tc_id = ''call_3'', tc_name = ''web.fly'', tc_arguments = JObj []\<rparr>"

text \<open>A history with two user messages, an assistant message between them and a tool message last.\<close>

definition two_turn_history :: "message list" where
  "two_turn_history =
     [plain_message ''user'' ''Hello'',
      plain_message ''assistant'' ''Hi, how can I help?'',
      plain_message ''user'' ''Open example.com'',
      \<lparr>m_role = ''tool'', m_content = ''{success: true}'', m_tool_calls = None,
       m_tool_call_id = Some ''call_1''\<rparr>]"

section \<open>Properties of the Tool Catalog\<close>

lemma params_loops_agree:
  "openai_params_loop ps props req = anthropic_params_loop ps props req"
  by (induction ps arbitrary: props req) (simp_all add: Let_def)

text \<open>
  Claim C9.  For every tool definition the two schema dialects agree: the properties
  and the required list under \<^verbatim>\<open>function.parameters\<close> of the OpenAI schema are the
  properties and the required list under \<^verbatim>\<open>input_schema\<close> of the Anthropic schema (both
  present, and what the parameter loop computes), and both schemas carry the
  definition's name and description.
\<close>

theorem schema_dialects_agree:
  "jpath [''function'', ''parameters'', ''properties''] (to_openai_schema d)
     = jpath [''input_schema'', ''properties''] (to_anthropic_schema d)
   \<and> jpath [''function'', ''parameters'', ''required''] (to_openai_schema d)
     = jpath [''input_schema'', ''required''] (to_anthropic_schema d)
   \<and> jpath [''input_schema'', ''properties''] (to_anthropic_schema d)
     = Some (JObj (fst (anthropic_params_loop (td_parameters d) [] [])))
   \<and> jpath [''input_schema'', ''required''] (to_anthropic_schema d)
     = Some (JArr (map JStr (snd (anthropic_params_loop (td_parameters d) [] []))))
   \<and> jpath [''function'', ''name''] (to_openai_schema d) = Some (JStr (td_name d))
   \<and> jpath [''name''] (to_anthropic_schema d) = Some (JStr (td_name d))
   \<and> jpath [''function'', ''description''] (to_openai_schema d) = Some (JStr (td_description d))
   \<and> jpath [''description''] (to_anthropic_schema d) = Some (JStr (td_description d))"
  by (simp add: to_openai_schema_def to_anthropic_schema_def params_loops_agree split: prod.splits)

lemma key_in_update: "k \<in> fst ` set (AList.update k v al)"
  by (induction al) auto

lemma keys_update: "fst ` set (AList.update k v al) = insert k (fst ` set al)"
  by (induction al) auto

lemma update_keys_ok:
  "distinct (map fst al) \<Longrightarrow> list_all (\<lambda>(k, d). td_name d = k) al \<Longrightarrow>
   list_all (\<lambda>(k, d). td_name d = k) (AList.update (td_name d) d al)"
  by (induction al) auto

lemma new_registry_keys_ok: "registry_keys_ok new_registry"
  by (simp add: registry_keys_ok_def new_registry_def)

lemma add_tool_keys_ok: "registry_keys_ok reg \<Longrightarrow> registry_keys_ok (add_tool reg d)"
  by (simp add: registry_keys_ok_def add_tool_def update_keys_ok distinct_update)

lemma add_handler_keys_ok:
  "registry_keys_ok reg \<Longrightarrow> registry_keys_ok (snd (add_handler reg n h))"
  by (simp add: registry_keys_ok_def add_handler_def)

lemma register_tool_keys_ok:
  "registry_keys_ok reg \<Longrightarrow> registry_keys_ok (snd (register_tool reg d h))"
  by (simp add: register_tool_def add_handler_keys_ok add_tool_keys_ok)

lemma r_tools_add_tool:
  "r_tools (add_tool r d) = AList.update (td_name d) d (r_tools r)"
  by (simp add: add_tool_def)

lemma register_tool_result:
  "register_tool r d h =
     (Inr (), (add_tool r d)\<lparr>r_handlers := AList.update (td_name d) h (r_handlers r)\<rparr>)"
  by (simp add: register_tool_def add_handler_def add_tool_def key_in_update)

text \<open>
  In a dict whose entries are stored under their own names, the entries of a given
  name after an assignment under that name are the assigned definition alone.
\<close>

lemma filter_update_same_name:
  "distinct (map fst al) \<Longrightarrow> list_all (\<lambda>(k, d). td_name d = k) al \<Longrightarrow>
   filter (\<lambda>t. td_name t = td_name d) (map snd (AList.update (td_name d) d al)) = [d]"
proof (induction al)
  case Nil
  then show ?case by simp
next
  case (Cons p al)
  obtain k v where p: "p = (k, v)" by (cases p)
  show ?case
  proof (cases "k = td_name d")
    case True
    with Cons.prems p have "\<forall>(k', d') \<in> set al. td_name d' \<noteq> td_name d"
      by (force simp: list_all_iff)
    then have "filter (\<lambda>t. td_name t = td_name d) (map snd al) = []"
      by (auto simp: filter_empty_conv)
    with True p show ?thesis by simp
  next
    case False
    with Cons p show ?thesis by auto
  qed
qed

text \<open>
  Claim C8.  In a catalog built by the registration methods (distinct keys, each
  definition under its own name), registering a definition named \<open>X\<close> and then another
  definition named \<open>X\<close> leaves exactly one entry named \<open>X\<close> in \<^verbatim>\<open>list_tools()\<close>, namely the
  later definition, which is also what \<^verbatim>\<open>get_tool("X")\<close> returns; no exception is raised.
  The same holds for two calls of \<^verbatim>\<open>register_tool\<close>, each with a handler.
\<close>

theorem same_name_registration_overwrites:
  assumes "registry_keys_ok reg" and "td_name d1 = X" and "td_name d2 = X"
  shows "filter (\<lambda>t. td_name t = X) (list_tools (add_tool (add_tool reg d1) d2) None) = [d2]
       \<and> get_tool (add_tool (add_tool reg d1) d2) X = Some d2
       \<and> fst (register_tool (snd (register_tool reg d1 h1)) d2 h2) = Inr ()
       \<and> filter (\<lambda>t. td_name t = X)
            (list_tools (snd (register_tool (snd (register_tool reg d1 h1)) d2 h2)) None) = [d2]
       \<and> get_tool (snd (register_tool (snd (register_tool reg d1 h1)) d2 h2)) X = Some d2"
proof -
  let ?al = "AList.update X d1 (r_tools reg)"
  have "registry_keys_ok (add_tool reg d1)"
    using assms(1) by (rule add_tool_keys_ok)
  then have ok: "distinct (map fst ?al)" "list_all (\<lambda>(k, d). td_name d = k) ?al"
    by (simp_all add: registry_keys_ok_def r_tools_add_tool assms(2))
  have filt: "filter (\<lambda>t. td_name t = X) (map snd (AList.update X d2 ?al)) = [d2]"
    using filter_update_same_name [OF ok, of d2] by (simp add: assms(3))
  show ?thesis
    using filt
    by (simp add: list_tools_def get_tool_def register_tool_result r_tools_add_tool
        assms(2,3) update_conv')
qed

theorem same_name_registration_overwrites_witness:
  "registry_keys_ok (new_registry :: nat tools_registry)
   \<and> td_name social_post_v1 = ''social.post'' \<and> td_name social_post_v2 = ''social.post''
   \<and> list_tools (add_tool (add_tool (new_registry :: nat tools_registry) social_post_v1)
                   social_post_v2) None
        = [social_post_v2]
   \<and> filter (\<lambda>t. td_name t = ''social.post'')
        (list_tools (add_tool (add_tool (new_registry :: nat tools_registry) social_post_v1)
                       social_post_v2) None)
        = [social_post_v2]
   \<and> get_tool (add_tool (add_tool (new_registry :: nat tools_registry) social_post_v1)
                  social_post_v2)
        ''social.post'' = Some social_post_v2"
proof -
  have k: "registry_keys_ok (new_registry :: nat tools_registry)"
    by (rule new_registry_keys_ok)
  have n1: "td_name social_post_v1 = ''social.post''" by (simp add: social_post_v1_def)
  have n2: "td_name social_post_v2 = ''social.post''" by (simp add: social_post_v2_def)
  have l: "list_tools (add_tool (add_tool (new_registry :: nat tools_registry) social_post_v1)
                         social_post_v2) None
        = [social_post_v2]"
    by (simp add: list_tools_def add_tool_def new_registry_def n1 n2)
  show ?thesis
    using same_name_registration_overwrites [OF k n1 n2, of 0 1] k n1 n2 l by simp
qed

lemma handlers_registered_add_tool:
  "handlers_registered reg \<Longrightarrow> handlers_registered (add_tool reg d)"
  by (auto simp: handlers_registered_def add_tool_def keys_update)

lemma handlers_registered_add_handler:
  "handlers_registered reg \<Longrightarrow> handlers_registered (snd (add_handler reg n h))"
  by (auto simp: handlers_registered_def add_handler_def keys_update)

text \<open>
  Claim C10.  Every name with a bound handler has a registered definition: this holds
  of the empty registry and is kept by \<^verbatim>\<open>add_tool\<close>, \<^verbatim>\<open>add_handler\<close> and \<^verbatim>\<open>register_tool\<close>;
  \<^verbatim>\<open>add_handler\<close> for a name without a definition raises \<^verbatim>\<open>ValueError\<close> and leaves the
  registry as it was; \<^verbatim>\<open>register_tool\<close> never raises; and \<^verbatim>\<open>can_handle(name)\<close> implies
  that \<^verbatim>\<open>get_tool(name)\<close> returns a definition.
\<close>

theorem handlers_have_definitions:
  "handlers_registered (new_registry :: 'h tools_registry)
   \<and> (handlers_registered (reg :: 'h tools_registry) \<longrightarrow> handlers_registered (add_tool reg d))
   \<and> (get_tool reg n = None \<longrightarrow>
        add_handler reg n h
          = (Inl (ValueError (''Tool '' @ squote @ n @ squote @ '' is not registered'')), reg))
   \<and> (handlers_registered reg \<longrightarrow> handlers_registered (snd (add_handler reg n h)))
   \<and> (handlers_registered reg \<longrightarrow>
        fst (register_tool reg d h) = Inr () \<and> handlers_registered (snd (register_tool reg d h)))
   \<and> (can_handle reg n \<longrightarrow> get_tool reg n \<noteq> None)"
proof (intro conjI impI)
  show "handlers_registered (new_registry :: 'h tools_registry)"
    by (simp add: handlers_registered_def new_registry_def)
next
  assume "handlers_registered reg"
  then show "handlers_registered (add_tool reg d)"
    by (rule handlers_registered_add_tool)
next
  assume "get_tool reg n = None"
  then have "n \<notin> fst ` set (r_tools reg)"
    by (simp add: get_tool_def map_of_eq_None_iff)
  then show "add_handler reg n h
          = (Inl (ValueError (''Tool '' @ squote @ n @ squote @ '' is not registered'')), reg)"
    by (simp add: add_handler_def)
next
  assume "handlers_registered reg"
  then show "handlers_registered (snd (add_handler reg n h))"
    by (rule handlers_registered_add_handler)
next
  show "fst (register_tool reg d h) = Inr ()"
    by (simp add: register_tool_result)
next
  assume "handlers_registered reg"
  then show "handlers_registered (snd (register_tool reg d h))"
    by (auto simp: register_tool_result handlers_registered_def add_tool_def keys_update)
next
  assume "can_handle reg n"
  then have "n \<in> fst ` set (r_tools reg)"
    by (simp add: can_handle_def)
  then show "get_tool reg n \<noteq> None"
    by (simp add: get_tool_def map_of_eq_None_iff)
qed

theorem handlers_have_definitions_witness:
  "handlers_registered (new_registry :: nat tools_registry)
   \<and> handlers_registered (add_tool (new_registry :: nat tools_registry) social_post_v1)
   \<and> get_tool (new_registry :: nat tools_registry) ''social.post'' = None
   \<and> add_handler (new_registry :: nat tools_registry) ''social.post'' 7
        = (Inl (ValueError ''Tool 'social.post' is not registered''), new_registry)
   \<and> handlers_registered (snd (add_handler (new_registry :: nat tools_registry) ''social.post'' 7))
   \<and> fst (register_tool (new_registry :: nat tools_registry) social_post_v1 7) = Inr ()
   \<and> handlers_registered (snd (register_tool (new_registry :: nat tools_registry) social_post_v1 7))
   \<and> can_handle (snd (register_tool (new_registry :: nat tools_registry) social_post_v1 7))
        ''social.post''
   \<and> get_tool (snd (register_tool (new_registry :: nat tools_registry) social_post_v1 7))
        ''social.post'' \<noteq> None"
proof -
  have g: "get_tool (new_registry :: nat tools_registry) ''social.post'' = None"
    by (simp add: get_tool_def new_registry_def)
  have a: "handlers_registered (new_registry :: nat tools_registry)"
    by (simp add: handlers_registered_def new_registry_def)
  have c: "can_handle (snd (register_tool (new_registry :: nat tools_registry) social_post_v1 7))
             ''social.post''"
    by (simp add: can_handle_def register_tool_result add_tool_def new_registry_def
          social_post_v1_def)
  show ?thesis
    using handlers_have_definitions
            [of "new_registry :: nat tools_registry" social_post_v1 "''social.post''" 7]
          handlers_have_definitions
            [of "snd (register_tool (new_registry :: nat tools_registry) social_post_v1 7)"
                social_post_v1 "''social.post''" 7]
          g a c
    by simp
qed

section \<open>Properties of the Provider Adapter\<close>

lemma find_rev_last:
  "find P (rev xs) = (case filter P xs of [] \<Rightarrow> None | y # ys \<Rightarrow> Some (last (y # ys)))"
proof (induction xs rule: rev_induct)
  case Nil
  then show ?case by simp
next
  case (snoc x xs)
  then show ?case by (simp split: list.splits)
qed

text \<open>The list that \<^verbatim>\<open>chat\<close> passes starts with the first of the built-in tools.\<close>

lemma combined_tool_schemas_first:
  "\<exists>ts. combined_tool_schemas app = ToolFunctionObj (hd TOOL_DEFINITIONS) # ts"
  by (simp add: combined_tool_schemas_def TOOL_DEFINITIONS_def)

text \<open>
  Claim C4.  With no backend configured, a completion request whose tool list, if it is
  not empty, starts with a \<^verbatim>\<open>ToolFunction\<close> (the element type the signature declares) gets
  an assistant message whose content starts with the marker \<^verbatim>\<open>[MOCK RESPONSE]\<close> and embeds
  verbatim the content of the last user-role message of the history (or a fixed text
  when there is none); with a non-empty tool list the message carries exactly one tool
  call, with the name of the first tool and empty arguments, and otherwise none.
\<close>

theorem mock_mode_response:
  assumes "openai_client p = None" and "anthropic_client p = None"
      and "azure_openai_client p = None"
      and "case tools of Some (DictObj d # ts) \<Rightarrow> False | _ \<Rightarrow> True"
  shows "\<exists>m. fst (acomplete p messages tools system model s) = Inr m
           \<and> m_role m = ''assistant''
           \<and> take 15 (m_content m) = ''[MOCK RESPONSE]''
           \<and> m_content m =
               ''[MOCK RESPONSE] I received your message: '' @ squote
               @ (case filter (\<lambda>msg. m_role msg = ''user'') messages of
                    [] \<Rightarrow> ''No user message found''
                  | u # us \<Rightarrow> m_content (last (u # us)))
               @ squote
               @ ''. Please configure an LLM provider API key to get real responses.''
           \<and> m_tool_calls m =
               (case tools of
                  Some (ToolFunctionObj first_tool # ts) \<Rightarrow>
                    Some [\<lparr>tc_id = ''mock_tool_call_1'', tc_name = tf_name first_tool,
                           tc_arguments = JObj []\<rparr>]
                | _ \<Rightarrow> None)"
proof -
  have a: "fst (acomplete p messages tools system model s) = mock_response p messages tools"
    using assms(1-3) by (simp add: acomplete_def Let_def)
  show ?thesis
    unfolding a using assms(4)
    by (auto simp: mock_response_def plain_message_def find_rev_last Let_def
             split: option.splits list.splits tool_item.splits)
qed

theorem mock_mode_response_witness:
  "openai_client mock_provider = None \<and> anthropic_client mock_provider = None
   \<and> azure_openai_client mock_provider = None
   \<and> (\<exists>m. fst (acomplete mock_provider two_turn_history (Some (combined_tool_schemas mock_app))
                  (Some ''You are Wind.'') None initial_state) = Inr m
          \<and> m_role m = ''assistant''
          \<and> take 15 (m_content m) = ''[MOCK RESPONSE]''
          \<and> m_content m =
              ''[MOCK RESPONSE] I received your message: 'Open example.com'. Please configure an LLM provider API key to get real responses.''
          \<and> m_tool_calls m =
              Some [\<lparr>tc_id = ''mock_tool_call_1'', tc_name = ''web.navigate'',
                     tc_arguments = JObj []\<rparr>])"
proof -
  have n: "openai_client mock_provider = None" "anthropic_client mock_provider = None"
      "azure_openai_client mock_provider = None"
    by (simp_all add: mock_provider_def)
  obtain ts where c: "combined_tool_schemas mock_app = ToolFunctionObj (hd TOOL_DEFINITIONS) # ts"
    using combined_tool_schemas_first by blast
  have t: "case Some (combined_tool_schemas mock_app) of
             Some (DictObj d # ts) \<Rightarrow> False | _ \<Rightarrow> True"
    by (simp add: c)
  have f: "filter (\<lambda>msg. m_role msg = ''user'') two_turn_history
             = [plain_message ''user'' ''Hello'', plain_message ''user'' ''Open example.com'']"
    by (simp add: two_turn_history_def plain_message_def)
  have h: "tf_name (hd TOOL_DEFINITIONS) = ''web.navigate''"
    by (simp add: TOOL_DEFINITIONS_def)
  from mock_mode_response [OF n t, of two_turn_history "Some ''You are Wind.''" None initial_state]
  show ?thesis
    using n by (simp add: f c h plain_message_def)
qed

text \<open>
  With a backend configured, a plain dict anywhere in the tool list makes the
  completion raise: the tools are converted before the \<^verbatim>\<open>try\<close> block is entered.
\<close>

lemma map_exn_to_dict_raises:
  "DictObj d \<in> set ts \<Longrightarrow> map_exn to_dict ts = Inl (no_attribute ''dict'' ''name'')"
proof (induction ts)
  case Nil
  then show ?case by simp
next
  case (Cons t ts)
  then show ?case by (cases t) (auto split: sum.splits)
qed

lemma convert_to_anthropic_tools_raises:
  "DictObj d \<in> set ts \<Longrightarrow> convert_to_anthropic_tools ts = Inl (no_attribute ''dict'' ''name'')"
  unfolding convert_to_anthropic_tools_def
proof (induction ts)
  case Nil
  then show ?case by simp
next
  case (Cons t ts)
  then show ?case by (cases t) (auto split: sum.splits)
qed

lemma acomplete_raises_on_dict:
  assumes "openai_client p \<noteq> None \<or> anthropic_client p \<noteq> None \<or> azure_openai_client p \<noteq> None"
      and "DictObj d \<in> set ts"
  shows "fst (acomplete p messages (Some ts) system model s) = Inl (no_attribute ''dict'' ''name'')"
proof -
  from assms(2) have ne: "ts \<noteq> []" by auto
  show ?thesis
    using assms(1) ne map_exn_to_dict_raises [OF assms(2)]
      convert_to_anthropic_tools_raises [OF assms(2)]
    by (auto simp: acomplete_def complete_with_openai_def complete_with_anthropic_def
          complete_with_azure_openai_def run_ext_def Let_def split: prod.splits)
qed

text \<open>
  With tool lists of \<^verbatim>\<open>ToolFunction\<close> objects only, every \<^verbatim>\<open>Exception\<close> is caught: what
  leaves the completion, if anything, is an exception of the backend that is not an
  \<^verbatim>\<open>Exception\<close>.
\<close>

lemma map_exn_to_dict_ok:
  "list_all (\<lambda>t. case t of ToolFunctionObj f \<Rightarrow> True | DictObj d \<Rightarrow> False) ts
   \<Longrightarrow> \<exists>js. map_exn to_dict ts = Inr js"
  by (induction ts) (auto split: tool_item.splits)

lemma convert_to_anthropic_tools_ok:
  "list_all (\<lambda>t. case t of ToolFunctionObj f \<Rightarrow> True | DictObj d \<Rightarrow> False) ts
   \<Longrightarrow> \<exists>js. convert_to_anthropic_tools ts = Inr js"
  unfolding convert_to_anthropic_tools_def
  by (induction ts) (auto split: tool_item.splits)

lemma catch_all_lets_through:
  "fst (catch_all r) = Inl e \<Longrightarrow> \<not> is_exception e"
  by (cases r) (auto simp: catch_all_def split: sum.splits if_splits)

lemma fst_run_ext: "fst (run_ext f s) = fst (f (world s))"
  by (simp add: run_ext_def split: prod.splits)

lemma openai_tools_param_ok:
  assumes "only_tool_functions tools"
  shows "\<exists>tp. (if truthy_list tools
               then (case map_exn to_dict (the tools) of
                       Inl e \<Rightarrow> Inl e | Inr ts \<Rightarrow> Inr (Some ts))
               else Inr None) = Inr tp"
proof (cases tools)
  case None
  then show ?thesis by simp
next
  case (Some ts)
  with assms obtain js where "map_exn to_dict ts = Inr js"
    using map_exn_to_dict_ok [of ts] by (auto simp: only_tool_functions_def)
  with Some show ?thesis by simp
qed

lemma anthropic_tools_param_ok:
  assumes "only_tool_functions tools"
  shows "\<exists>tp. (if truthy_list tools
               then (case convert_to_anthropic_tools (the tools) of
                       Inl e \<Rightarrow> Inl e | Inr ts \<Rightarrow> Inr (Some ts))
               else Inr None) = Inr tp"
proof (cases tools)
  case None
  then show ?thesis by simp
next
  case (Some ts)
  with assms obtain js where "convert_to_anthropic_tools ts = Inr js"
    using convert_to_anthropic_tools_ok [of ts] by (auto simp: only_tool_functions_def)
  with Some show ?thesis by simp
qed

lemma complete_with_openai_catches:
  assumes "only_tool_functions tools"
      and "fst (complete_with_openai p messages tools system model w) = Inl e"
  shows "\<not> is_exception e"
proof -
  obtain tp where "(if truthy_list tools
               then (case map_exn to_dict (the tools) of
                       Inl e \<Rightarrow> Inl e | Inr ts \<Rightarrow> Inr (Some ts))
               else Inr None) = Inr tp"
    using openai_tools_param_ok [OF assms(1)] by blast
  with assms(2) show ?thesis
    by (simp add: complete_with_openai_def Let_def catch_all_lets_through)
qed

lemma complete_with_azure_openai_catches:
  assumes "only_tool_functions tools"
      and "fst (complete_with_azure_openai p messages tools system model w) = Inl e"
  shows "\<not> is_exception e"
proof -
  obtain tp where "(if truthy_list tools
               then (case map_exn to_dict (the tools) of
                       Inl e \<Rightarrow> Inl e | Inr ts \<Rightarrow> Inr (Some ts))
               else Inr None) = Inr tp"
    using openai_tools_param_ok [OF assms(1)] by blast
  with assms(2) show ?thesis
    by (simp add: complete_with_azure_openai_def Let_def catch_all_lets_through)
qed

lemma complete_with_anthropic_catches:
  assumes "only_tool_functions tools"
      and "fst (complete_with_anthropic p messages tools system model w) = Inl e"
  shows "\<not> is_exception e"
proof -
  obtain tp where "(if truthy_list tools
               then (case convert_to_anthropic_tools (the tools) of
                       Inl e \<Rightarrow> Inl e | Inr ts \<Rightarrow> Inr (Some ts))
               else Inr None) = Inr tp"
    using anthropic_tools_param_ok [OF assms(1)] by blast
  with assms(2) show ?thesis
    by (simp add: complete_with_anthropic_def Let_def catch_all_lets_through)
qed

lemma mock_response_returns:
  assumes "only_tool_functions tools"
  shows "\<exists>m. mock_response p messages tools = Inr m"
proof (cases tools)
  case None
  then show ?thesis by (simp add: mock_response_def Let_def)
next
  case (Some ts)
  with assms show ?thesis
    by (cases ts)
       (auto simp: mock_response_def only_tool_functions_def Let_def split: tool_item.splits)
qed

lemma acomplete_catches_on_tool_functions:
  assumes "only_tool_functions tools"
      and "fst (acomplete p messages tools system model s) = Inl e"
  shows "\<not> is_exception e"
proof -
  let ?s = "log_event (EvAcomplete messages tools system) s"
  consider (oa) "openai_client p \<noteq> None"
    | (an) "openai_client p = None" "anthropic_client p \<noteq> None"
    | (az) "openai_client p = None" "anthropic_client p = None" "azure_openai_client p \<noteq> None"
    | (mock) "openai_client p = None" "anthropic_client p = None" "azure_openai_client p = None"
    by blast
  then show ?thesis
  proof cases
    case oa
    with assms(2) have "fst (complete_with_openai p messages tools system model (world ?s)) = Inl e"
      by (simp add: acomplete_def Let_def fst_run_ext)
    with assms(1) show ?thesis by (rule complete_with_openai_catches)
  next
    case an
    with assms(2) have "fst (complete_with_anthropic p messages tools system model (world ?s)) = Inl e"
      by (simp add: acomplete_def Let_def fst_run_ext)
    with assms(1) show ?thesis by (rule complete_with_anthropic_catches)
  next
    case az
    with assms(2) have "fst (complete_with_azure_openai p messages tools system model (world ?s)) = Inl e"
      by (simp add: acomplete_def Let_def fst_run_ext)
    with assms(1) show ?thesis by (rule complete_with_azure_openai_catches)
  next
    case mock
    with assms(2) have "mock_response p messages tools = Inl e"
      by (simp add: acomplete_def Let_def)
    with mock_response_returns [OF assms(1), of p messages] show ?thesis by simp
  qed
qed

lemma acomplete_returns_on_tool_functions_example:
  "only_tool_functions (Some (map ToolFunctionObj TOOL_DEFINITIONS))
   \<and> \<not> isl (fst (acomplete (openai_provider ''call_1'' ''call_2'') (req_messages hello_request)
                  (Some (map ToolFunctionObj TOOL_DEFINITIONS)) (Some ''You are Wind.'') None
                  initial_state))"
  by code_simp

text \<open>
  Claim C1 says that \<^verbatim>\<open>acomplete\<close> with an active backend never raises, also for the mixed
  list of \<^verbatim>\<open>ToolFunction\<close> objects and schema dicts that the chat endpoint passes.  The code
  does otherwise: with an OpenAI client configured and the example catalog registered,
  the first completion of a chat request raises \<^verbatim>\<open>AttributeError\<close>, and so does \<^verbatim>\<open>chat\<close>.
\<close>

theorem chat_raises_with_openai_backend:
  "fst (acomplete (app_provider openai_app_with_catalog) (req_messages hello_request)
          (Some (combined_tool_schemas openai_app_with_catalog))
          (Some (wind_system_prompt openai_app_with_catalog)) None initial_state)
     = Inl (AttributeError (squote @ ''dict'' @ squote @ '' object has no attribute ''
                            @ squote @ ''name'' @ squote))
   \<and> fst (chat openai_app_with_catalog hello_request initial_state)
     = Inl (AttributeError (squote @ ''dict'' @ squote @ '' object has no attribute ''
                            @ squote @ ''name'' @ squote))"
  by code_simp

section \<open>Properties of the orchestrator\<close>

text \<open>
  The loop over the tool calls, one call at a time: an exception that leaves the body
  ends the loop, and otherwise the outcome of the call is put before those of the rest.
\<close>

lemma run_tool_calls_Inl:
  "run_tool_call app request tc s = (Inl e, s') \<Longrightarrow>
   run_tool_calls app request (tc # rest) s = (Inl e, s')"
  by simp

lemma run_tool_calls_Inr:
  "run_tool_call app request tc s = (Inr r, s') \<Longrightarrow>
   run_tool_calls app request (tc # rest) s =
     (case fst (run_tool_calls app request rest s') of
        Inl e \<Rightarrow> Inl e | Inr rs \<Rightarrow> Inr (r # rs),
      snd (run_tool_calls app request rest s'))"
  by (simp split: prod.splits sum.splits)

lemma run_tool_call_step:
  "run_tool_call app request tc s = (Inr r, s') \<Longrightarrow> is_tool_step (snd r)"
  by (auto simp: run_tool_call_def is_tool_step_def Let_def
           split: prod.splits sum.splits if_splits)

lemma run_tool_call_id:
  "run_tool_call app request tc s = (Inr r, s') \<Longrightarrow> tr_tool_call_id (fst r) = tc_id tc"
  by (auto simp: run_tool_call_def Let_def split: prod.splits sum.splits if_splits)

lemma run_tool_calls_Cons_Inr:
  assumes "run_tool_calls app request (tc # rest) s = (Inr outcomes, s'')"
  obtains r rs s' where "run_tool_call app request tc s = (Inr r, s')"
    "run_tool_calls app request rest s' = (Inr rs, s'')" "outcomes = r # rs"
  using assms by (auto split: prod.splits sum.splits)

lemma run_tool_calls_steps:
  "run_tool_calls app request tcs s = (Inr outcomes, s') \<Longrightarrow>
   list_all is_tool_step (map snd outcomes)"
proof (induction tcs arbitrary: s outcomes)
  case Nil
  then show ?case by simp
next
  case (Cons tc tcs)
  from Cons.prems show ?case
  proof (cases rule: run_tool_calls_Cons_Inr)
    case (1 r rs s1)
    with Cons.IH [OF 1(2)] run_tool_call_step [OF 1(1)] show ?thesis by simp
  qed
qed

lemma run_tool_calls_length:
  "run_tool_calls app request tcs s = (Inr outcomes, s') \<Longrightarrow> length outcomes = length tcs"
proof (induction tcs arbitrary: s outcomes)
  case Nil
  then show ?case by simp
next
  case (Cons tc tcs)
  from Cons.prems show ?case
  proof (cases rule: run_tool_calls_Cons_Inr)
    case (1 r rs s1)
    with Cons.IH [OF 1(2)] show ?thesis by simp
  qed
qed

lemma tool_call_ids_of_outcomes:
  "run_tool_calls app request tcs s = (Inr outcomes, s') \<Longrightarrow>
   map (tr_tool_call_id \<circ> fst) outcomes = map tc_id tcs"
proof (induction tcs arbitrary: s outcomes)
  case Nil
  then show ?case by simp
next
  case (Cons tc tcs)
  from Cons.prems show ?case
  proof (cases rule: run_tool_calls_Cons_Inr)
    case (1 r rs s1)
    with Cons.IH [OF 1(2)] run_tool_call_id [OF 1(1)] show ?thesis by simp
  qed
qed

lemma final_response_follows_append:
  "list_all is_tool_step xs \<Longrightarrow>
   final_response_follows (xs @ [StepFinalResponse m])"
  by (induction xs) (auto simp: is_tool_step_def)

text \<open>The two ways in which \<^verbatim>\<open>chat\<close> returns a response.\<close>

lemma chat_Inr_cases:
  assumes "chat app request s = (Inr resp, s')"
  obtains (direct) response where
      "acomplete (app_provider app) (req_messages request) (Some (combined_tool_schemas app))
         (Some (wind_system_prompt app)) None s = (Inr response, s')"
      "\<not> truthy_list (m_tool_calls response)"
      "resp = \<lparr>resp_message = response,
               resp_steps = [StepInput (req_messages request), StepLlmResponse response]\<rparr>"
  | (tools) response s1 s2 outcomes s3 s4 final_response where
      "acomplete (app_provider app) (req_messages request) (Some (combined_tool_schemas app))
         (Some (wind_system_prompt app)) None s = (Inr response, s1)"
      "truthy_list (m_tool_calls response)"
      "run_ext (aenter (app_tools app)) s1 = (Inr (), s2)"
      "run_tool_calls app request (the (m_tool_calls response)) s2 = (Inr outcomes, s3)"
      "run_ext (aexit (app_tools app)) s3 = (Inr (), s4)"
      "acomplete (app_provider app)
         (req_messages request @ map (tool_result_message (json_dumps app)) (map fst outcomes))
         None (Some (wind_system_prompt app)) None s4 = (Inr final_response, s')"
      "resp = \<lparr>resp_message = final_response,
               resp_steps =
                 [StepInput (req_messages request
                             @ map (tool_result_message (json_dumps app)) (map fst outcomes)),
                  StepLlmResponse response]
                 @ map snd outcomes @ [StepFinalResponse final_response]\<rparr>"
  using assms
  by (auto simp: chat_def Let_def split: prod.splits sum.splits if_splits)

text \<open>
  Claim C3.  Whenever \<^verbatim>\<open>chat\<close> returns a response, its step trace is ordered: the input
  step is first; if there are \<^verbatim>\<open>tool_call\<close> or \<^verbatim>\<open>tool_error\<close> steps, a \<^verbatim>\<open>final_response\<close>
  step follows each of them; and if there are none, the \<^verbatim>\<open>llm_response\<close> step is last.
\<close>

theorem step_trace_is_ordered:
  assumes "fst (chat app request s) = Inr resp"
  shows "step_trace_ordered (resp_steps resp)"
proof -
  obtain s' where c: "chat app request s = (Inr resp, s')"
    using assms by (cases "chat app request s") simp
  then show ?thesis
  proof (cases rule: chat_Inr_cases)
    case (direct response)
    then show ?thesis
      by (simp add: step_trace_ordered_def is_tool_step_def)
  next
    case (tools response s1 s2 outcomes s3 s4 final_response)
    have "list_all is_tool_step (map snd outcomes)"
      using tools(4) by (rule run_tool_calls_steps)
    moreover have "map snd outcomes \<noteq> []"
      using run_tool_calls_length [OF tools(4)] tools(2)
      by (cases "m_tool_calls response") auto
    ultimately show ?thesis
      using tools(7) final_response_follows_append [of "map snd outcomes" final_response]
      by (cases "map snd outcomes")
         (auto simp: step_trace_ordered_def is_tool_step_def)
  qed
qed

theorem step_trace_is_ordered_witness:
  "\<exists>resp. fst (chat mock_app hello_request initial_state) = Inr resp
        \<and> map step_type (resp_steps resp)
            = [''input'', ''llm_response'', ''tool_call'', ''final_response'']
        \<and> step_trace_ordered (resp_steps resp)"
proof -
  have "\<not> isl (fst (chat mock_app hello_request initial_state))"
    by code_simp
  then have r: "fst (chat mock_app hello_request initial_state)
                  = Inr (projr (fst (chat mock_app hello_request initial_state)))"
    by (simp add: sum.collapse(2))
  have k: "map step_type (resp_steps (projr (fst (chat mock_app hello_request initial_state))))
         = [''input'', ''llm_response'', ''tool_call'', ''final_response'']"
    by code_simp
  have o: "step_trace_ordered (resp_steps (projr (fst (chat mock_app hello_request initial_state))))"
    using r by (rule step_trace_is_ordered)
  show ?thesis
  proof (intro exI conjI)
    show "fst (chat mock_app hello_request initial_state)
            = Inr (projr (fst (chat mock_app hello_request initial_state)))"
      by (rule r)
    show "map step_type (resp_steps (projr (fst (chat mock_app hello_request initial_state))))
            = [''input'', ''llm_response'', ''tool_call'', ''final_response'']"
      by (rule k)
    show "step_trace_ordered
            (resp_steps (projr (fst (chat mock_app hello_request initial_state))))"
      by (rule o)
  qed
qed

subsection \<open>The events of a turn\<close>

lemma trace_run_ext [simp]: "trace (snd (run_ext f s)) = trace s"
  by (simp add: run_ext_def split: prod.splits)

lemma trace_acomplete:
  "trace (snd (acomplete p msgs tools sys model s)) = trace s @ [EvAcomplete msgs tools sys]"
  by (simp add: acomplete_def Let_def log_event_def)

lemma trace_handle:
  "\<exists>evs. trace (snd (handle reg n args c s)) = trace s @ evs
         \<and> length evs \<le> 1 \<and> list_all is_dispatch evs"
  by (auto simp: handle_def log_event_def run_ext_def is_dispatch_def Let_def
           split: prod.splits sum.splits option.splits)

lemma trace_tools_call_kwargs:
  "\<exists>evs. trace (snd (tools_call_kwargs t n args s)) = trace s @ evs
         \<and> length evs \<le> 1 \<and> list_all is_dispatch evs"
  by (auto simp: tools_call_kwargs_def tools_call_def log_event_def run_ext_def is_dispatch_def
           split: prod.splits sum.splits option.splits json.splits)

lemma snd_run_tool_call:
  "snd (run_tool_call app request tc s) =
     (if can_handle (app_tools_registry app) (tc_name tc)
      then snd (handle (app_tools_registry app) (tc_name tc) (tc_arguments tc)
                  (Some (user_context request)) s)
      else snd (tools_call_kwargs (app_tools app) (tc_name tc) (tc_arguments tc) s))"
  by (simp add: run_tool_call_def Let_def split: prod.splits sum.splits)

lemma trace_run_tool_call:
  "\<exists>evs. trace (snd (run_tool_call app request tc s)) = trace s @ evs
         \<and> length evs \<le> 1 \<and> list_all is_dispatch evs"
proof (cases "can_handle (app_tools_registry app) (tc_name tc)")
  case True
  then show ?thesis
    using trace_handle [of "app_tools_registry app" "tc_name tc" "tc_arguments tc"
                           "Some (user_context request)" s]
    by (simp add: snd_run_tool_call)
next
  case False
  then show ?thesis
    using trace_tools_call_kwargs [of "app_tools app" "tc_name tc" "tc_arguments tc" s]
    by (simp add: snd_run_tool_call)
qed

text \<open>
  The state after the loop is the state after the first call and then after the loop over
  the remaining calls, or over none of them when the first call raised.
\<close>

lemma snd_run_tool_calls_Cons:
  "\<exists>rest'. snd (run_tool_calls app request (tc # rest) s)
             = snd (run_tool_calls app request rest' (snd (run_tool_call app request tc s)))
           \<and> length rest' \<le> length rest"
proof -
  obtain r s' where c: "run_tool_call app request tc s = (r, s')"
    by (cases "run_tool_call app request tc s")
  show ?thesis
  proof (cases r)
    case (Inl e)
    with c have "snd (run_tool_calls app request (tc # rest) s)
               = snd (run_tool_calls app request [] (snd (run_tool_call app request tc s)))"
      by simp
    then show ?thesis by (intro exI [of _ "[]"]) simp
  next
    case (Inr x)
    with c have "snd (run_tool_calls app request (tc # rest) s)
               = snd (run_tool_calls app request rest (snd (run_tool_call app request tc s)))"
      by (simp split: prod.splits sum.splits)
    then show ?thesis by (intro exI [of _ rest]) simp
  qed
qed

lemma trace_run_tool_calls:
  "\<exists>evs. trace (snd (run_tool_calls app request tcs s)) = trace s @ evs
         \<and> length evs \<le> length tcs \<and> list_all is_dispatch evs"
proof (induction "length tcs" arbitrary: tcs s rule: less_induct)
  case less
  show ?case
  proof (cases tcs)
    case Nil
    then show ?thesis by simp
  next
    case (Cons tc rest)
    obtain e1 where e1: "trace (snd (run_tool_call app request tc s)) = trace s @ e1"
        "length e1 \<le> 1" "list_all is_dispatch e1"
      using trace_run_tool_call by blast
    obtain rest' where r': "snd (run_tool_calls app request (tc # rest) s)
             = snd (run_tool_calls app request rest' (snd (run_tool_call app request tc s)))"
        "length rest' \<le> length rest"
      using snd_run_tool_calls_Cons by blast
    have "length rest' < length tcs" using r'(2) Cons by simp
    from less [OF this, of "snd (run_tool_call app request tc s)"]
    obtain e2 where e2:
        "trace (snd (run_tool_calls app request rest' (snd (run_tool_call app request tc s))))
           = trace (snd (run_tool_call app request tc s)) @ e2"
        "length e2 \<le> length rest'" "list_all is_dispatch e2"
      by blast
    show ?thesis
      using e1 e2 r' Cons
      by (intro exI [of _ "e1 @ e2"]) simp
  qed
qed

lemma acomplete_calls_append [simp]:
  "acomplete_calls (xs @ ys) = acomplete_calls xs @ acomplete_calls ys"
  by (induction xs rule: acomplete_calls.induct) simp_all

lemma acomplete_calls_dispatch:
  "list_all is_dispatch evs \<Longrightarrow> acomplete_calls evs = []"
  by (induction evs rule: acomplete_calls.induct) (simp_all add: is_dispatch_def)

lemma filter_all_dispatch: "list_all is_dispatch evs \<Longrightarrow> filter is_dispatch evs = evs"
  by (induction evs) simp_all

lemma tool_result_messages_roles:
  "list_all (\<lambda>m. m_role m = ''tool'') (map (tool_result_message dumps) rs)"
  by (induction rs) (simp_all add: tool_result_message_def)

text \<open>The events of a turn, in each of the ways it can end.\<close>

lemma chat_new_events:
  fixes app :: "'w app" and request :: chat_request and s :: "'w state"
  defines "E1 \<equiv> EvAcomplete (req_messages request) (Some (combined_tool_schemas app))
                   (Some (wind_system_prompt app))"
  shows "new_events app request s = [E1]
       \<or> (\<exists>tool_evs. new_events app request s = E1 # tool_evs
             \<and> list_all is_dispatch tool_evs
             \<and> length tool_evs \<le> length (requested_tool_calls app request s))
       \<or> (\<exists>tool_evs outcomes s2.
             new_events app request s =
               E1 # tool_evs
                  @ [EvAcomplete (req_messages request
                                  @ map (tool_result_message (json_dumps app)) (map fst outcomes))
                       None (Some (wind_system_prompt app))]
             \<and> list_all is_dispatch tool_evs
             \<and> length tool_evs \<le> length (requested_tool_calls app request s)
             \<and> fst (run_tool_calls app request (requested_tool_calls app request s) s2)
                 = Inr outcomes)"
proof -
  obtain r1 s1 where a1:
      "acomplete (app_provider app) (req_messages request) (Some (combined_tool_schemas app))
         (Some (wind_system_prompt app)) None s = (r1, s1)"
    by (cases "acomplete (app_provider app) (req_messages request)
                 (Some (combined_tool_schemas app)) (Some (wind_system_prompt app)) None s")
  have t1: "trace s1 = trace s @ [E1]"
    using trace_acomplete [of "app_provider app" "req_messages request"
            "Some (combined_tool_schemas app)" "Some (wind_system_prompt app)" None s] a1
    by (simp add: E1_def)
  show ?thesis
  proof (cases r1)
    case (Inl e)
    then have "chat app request s = (Inl e, s1)"
      by (simp add: chat_def a1)
    then show ?thesis using t1 by (simp add: new_events_def)
  next
    case (Inr response)
    show ?thesis
    proof (cases "truthy_list (m_tool_calls response)")
      case False
      with Inr have "snd (chat app request s) = s1"
        by (simp add: chat_def a1)
      then show ?thesis using t1 by (simp add: new_events_def)
    next
      case True
      then have req: "requested_tool_calls app request s = the (m_tool_calls response)"
        using Inr a1 by (cases "m_tool_calls response")
                        (simp_all add: requested_tool_calls_def first_completion_def)
      obtain r2 s2 where en: "run_ext (aenter (app_tools app)) s1 = (r2, s2)"
        by (cases "run_ext (aenter (app_tools app)) s1")
      have t2: "trace s2 = trace s1"
        using trace_run_ext [of "aenter (app_tools app)" s1] en by simp
      show ?thesis
      proof (cases r2)
        case (Inl e)
        with Inr True have "snd (chat app request s) = s2"
          by (simp add: chat_def a1 en)
        then show ?thesis using t1 t2 by (simp add: new_events_def)
      next
        case enter: (Inr u)
        obtain r3 s3 where rt:
            "run_tool_calls app request (the (m_tool_calls response)) s2 = (r3, s3)"
          by (cases "run_tool_calls app request (the (m_tool_calls response)) s2")
        obtain tool_evs where te: "trace s3 = trace s2 @ tool_evs"
            "length tool_evs \<le> length (the (m_tool_calls response))"
            "list_all is_dispatch tool_evs"
          using trace_run_tool_calls [of app request "the (m_tool_calls response)" s2] rt
          by auto
        obtain r4 s4 where ex: "run_ext (aexit (app_tools app)) s3 = (r4, s4)"
          by (cases "run_ext (aexit (app_tools app)) s3")
        have t4: "trace s4 = trace s3"
          using trace_run_ext [of "aexit (app_tools app)" s3] ex by simp
        show ?thesis
        proof (cases r3)
          case loop_raises: (Inl e)
          with Inr True enter have "snd (chat app request s) = s4"
            by (cases r4) (simp_all add: chat_def a1 en rt ex)
          then have "new_events app request s = E1 # tool_evs"
            using t1 t2 t4 te by (simp add: new_events_def)
          then show ?thesis using te req by simp
        next
          case loop: (Inr outcomes)
          show ?thesis
          proof (cases r4)
            case (Inl e)
            with Inr True enter loop have "snd (chat app request s) = s4"
              by (simp add: chat_def a1 en rt ex)
            then have "new_events app request s = E1 # tool_evs"
              using t1 t2 t4 te by (simp add: new_events_def)
            then show ?thesis using te req by simp
          next
            case exit: (Inr u')
            let ?msgs = "req_messages request
                           @ map (tool_result_message (json_dumps app)) (map fst outcomes)"
            obtain r5 s5 where a2:
                "acomplete (app_provider app) ?msgs None (Some (wind_system_prompt app)) None s4
                   = (r5, s5)"
              by (cases "acomplete (app_provider app) ?msgs None (Some (wind_system_prompt app))
                           None s4")
            have t5: "trace s5 = trace s4 @ [EvAcomplete ?msgs None (Some (wind_system_prompt app))]"
              using trace_acomplete [of "app_provider app" ?msgs None
                      "Some (wind_system_prompt app)" None s4] a2
              by simp
            from Inr True enter loop exit have "snd (chat app request s) = s5"
              by (cases r5) (simp_all add: chat_def a1 en rt ex a2 Let_def del: map_map)
            then have "new_events app request s =
                  E1 # tool_evs @ [EvAcomplete ?msgs None (Some (wind_system_prompt app))]"
              using t1 t2 t4 t5 te by (simp add: new_events_def)
            moreover have "fst (run_tool_calls app request
                                  (requested_tool_calls app request s) s2) = Inr outcomes"
              using rt req loop by simp
            ultimately show ?thesis using te req by auto
          qed
        qed
      qed
    qed
  qed
qed

text \<open>
  Claim C7.  In every run of \<^verbatim>\<open>chat\<close>, whatever its outcome, the completion calls are
  either the first call alone (with the combined tool schemas and the system prompt), or
  the first call and one second call, which is the last event of the turn and passes the
  request's messages extended by tool messages, the same system prompt and no tools.  The
  handler and system tool invocations of the turn are at most as many as the tool calls
  the first completion requested: what the second completion asks for is not dispatched.
\<close>

theorem at_most_one_tool_round:
  "(acomplete_calls (new_events app request s)
      = [(req_messages request, Some (combined_tool_schemas app), Some (wind_system_prompt app))]
    \<or> (\<exists>tool_msgs.
          acomplete_calls (new_events app request s)
            = [(req_messages request, Some (combined_tool_schemas app),
                Some (wind_system_prompt app)),
               (req_messages request @ tool_msgs, None, Some (wind_system_prompt app))]
          \<and> last (new_events app request s)
              = EvAcomplete (req_messages request @ tool_msgs) None (Some (wind_system_prompt app))
          \<and> list_all (\<lambda>m. m_role m = ''tool'') tool_msgs))
   \<and> length (filter is_dispatch (new_events app request s))
       \<le> length (requested_tool_calls app request s)"
proof -
  let ?E1 = "EvAcomplete (req_messages request) (Some (combined_tool_schemas app))
               (Some (wind_system_prompt app))"
  from chat_new_events [of app request s] show ?thesis
  proof (elim disjE exE conjE)
    assume "new_events app request s = [?E1]"
    then show ?thesis by (simp add: is_dispatch_def)
  next
    fix tool_evs
    assume "new_events app request s = ?E1 # tool_evs" "list_all is_dispatch tool_evs"
      "length tool_evs \<le> length (requested_tool_calls app request s)"
    then show ?thesis
      by (simp add: is_dispatch_def acomplete_calls_dispatch filter_all_dispatch)
  next
    fix tool_evs outcomes s2
    assume second: "new_events app request s =
           ?E1 # tool_evs
             @ [EvAcomplete (req_messages request
                             @ map (tool_result_message (json_dumps app)) (map fst outcomes))
                  None (Some (wind_system_prompt app))]"
        "list_all is_dispatch tool_evs"
        "length tool_evs \<le> length (requested_tool_calls app request s)"
    have "list_all (\<lambda>m. m_role m = ''tool'')
            (map (tool_result_message (json_dumps app)) (map fst outcomes))"
      by (rule tool_result_messages_roles)
    with second show ?thesis
      by (simp add: is_dispatch_def acomplete_calls_dispatch filter_all_dispatch del: map_map)
  qed
qed

subsection \<open>Tool messages and the requests they answer\<close>

lemma distinct_single_match:
  "distinct (map f xs) \<Longrightarrow> x \<in> set xs \<Longrightarrow> length (filter (\<lambda>y. f y = f x) xs) = 1"
proof (induction xs)
  case Nil
  then show ?case by simp
next
  case (Cons a xs)
  show ?case
  proof (cases "a = x")
    case True
    with Cons.prems have "f x \<notin> f ` set xs" by simp
    then have "\<And>y. y \<in> set xs \<Longrightarrow> f y \<noteq> f x" by (metis imageI)
    then have "filter (\<lambda>y. f y = f x) xs = []"
      by (simp add: filter_empty_conv)
    with True show ?thesis by simp
  next
    case False
    with Cons show ?thesis by auto
  qed
qed

lemma matching_one:
  assumes "distinct (map tc_id tcs)"
      and "m_tool_call_id m \<in> set (map (\<lambda>tc. Some (tc_id tc)) tcs)"
  shows "matching_requests tcs m = 1"
proof -
  obtain tc where tc: "tc \<in> set tcs" "m_tool_call_id m = Some (tc_id tc)"
    using assms(2) by auto
  have "filter (\<lambda>x. m_tool_call_id m = Some (tc_id x)) tcs
          = filter (\<lambda>x. tc_id x = tc_id tc) tcs"
    using tc(2) by (intro filter_cong) auto
  then show ?thesis
    using distinct_single_match [OF assms(1) tc(1)] by (simp add: matching_requests_def)
qed

text \<open>
  With a catalog that is not empty, the list \<^verbatim>\<open>chat\<close> passes to the first completion holds
  a plain dict.  A configured backend then raises before it requests anything, and mock
  mode requests one call: the ids of the requests are pairwise distinct either way.
\<close>

lemma combined_tool_schemas_dict:
  assumes "r_tools (app_tools_registry app) \<noteq> []"
  shows "\<exists>d. DictObj d \<in> set (combined_tool_schemas app)"
proof -
  from assms obtain k t ts where "r_tools (app_tools_registry app) = (k, t) # ts"
    by (cases "r_tools (app_tools_registry app)") auto
  then have "DictObj (to_openai_schema t) \<in> set (combined_tool_schemas app)"
    by (simp add: combined_tool_schemas_def get_openai_schemas_def list_tools_def)
  then show ?thesis by blast
qed

lemma requested_ids_distinct_with_catalog:
  assumes "r_tools (app_tools_registry app) \<noteq> []"
  shows "distinct (map tc_id (requested_tool_calls app request s))"
proof (cases "openai_client (app_provider app) \<noteq> None
              \<or> anthropic_client (app_provider app) \<noteq> None
              \<or> azure_openai_client (app_provider app) \<noteq> None")
  case True
  obtain d where "DictObj d \<in> set (combined_tool_schemas app)"
    using combined_tool_schemas_dict [OF assms] by blast
  with True have "first_completion app request s = Inl (no_attribute ''dict'' ''name'')"
    unfolding first_completion_def by (rule acomplete_raises_on_dict)
  then show ?thesis by (simp add: requested_tool_calls_def)
next
  case False
  obtain ts where c: "combined_tool_schemas app = ToolFunctionObj (hd TOOL_DEFINITIONS) # ts"
    using combined_tool_schemas_first by blast
  from False have "first_completion app request s
      = mock_response (app_provider app) (req_messages request) (Some (combined_tool_schemas app))"
    by (simp add: first_completion_def acomplete_def Let_def)
  then show ?thesis
    by (simp add: requested_tool_calls_def c mock_response_def Let_def)
qed

text \<open>
  Claim C6.  When \<^verbatim>\<open>chat\<close> returns a response and the first completion requested the
  tool calls \<open>tcs\<close> (at least one), the second completion is called with the request's
  messages followed by exactly as many tool-role messages as there are requests, the
  \<^verbatim>\<open>tool_call_id\<close> of the i-th message is the id of the i-th request, and each message
  matches exactly one request.  This holds for every application whose catalog is not
  empty, as the catalog of the running application is (the email and social apps
  register their tools when \<^verbatim>\<open>main.py\<close> imports them), and also for an empty catalog when
  the ids of the requests are pairwise distinct.
\<close>

theorem tool_messages_follow_requests:
  assumes "fst (chat app request s) = Inr resp"
      and "requested_tool_calls app request s = tcs" and "tcs \<noteq> []"
      and "r_tools (app_tools_registry app) \<noteq> [] \<or> distinct (map tc_id tcs)"
  shows "\<exists>tool_msgs.
       acomplete_calls (new_events app request s)
         = [(req_messages request, Some (combined_tool_schemas app),
             Some (wind_system_prompt app)),
            (req_messages request @ tool_msgs, None, Some (wind_system_prompt app))]
     \<and> length tool_msgs = length tcs
     \<and> map m_tool_call_id tool_msgs = map (\<lambda>tc. Some (tc_id tc)) tcs
     \<and> list_all (\<lambda>m. m_role m = ''tool'') tool_msgs
     \<and> list_all (\<lambda>m. matching_requests tcs m = 1) tool_msgs"
proof -
  have d: "distinct (map tc_id tcs)"
    using assms(2,4) requested_ids_distinct_with_catalog [of app request s] by blast
  obtain s' where c: "chat app request s = (Inr resp, s')"
    using assms(1) by (cases "chat app request s") simp
  then show ?thesis
  proof (cases rule: chat_Inr_cases)
    case (direct response)
    then have "requested_tool_calls app request s = []"
      by (cases "m_tool_calls response")
         (simp_all add: requested_tool_calls_def first_completion_def)
    with assms(2,3) show ?thesis by simp
  next
    case (tools response s1 s2 outcomes s3 s4 final_response)
    let ?tool_msgs = "map (tool_result_message (json_dumps app)) (map fst outcomes)"
    let ?E1 = "EvAcomplete (req_messages request) (Some (combined_tool_schemas app))
                 (Some (wind_system_prompt app))"
    have tcs: "the (m_tool_calls response) = tcs"
      using tools(1,2) assms(2)
      by (cases "m_tool_calls response")
         (simp_all add: requested_tool_calls_def first_completion_def)
    have loop: "run_tool_calls app request tcs s2 = (Inr outcomes, s3)"
      using tools(4) tcs by simp
    have t1: "trace s1 = trace s @ [?E1]"
      using trace_acomplete [of "app_provider app" "req_messages request"
              "Some (combined_tool_schemas app)" "Some (wind_system_prompt app)" None s] tools(1)
      by simp
    have t2: "trace s2 = trace s1"
      using trace_run_ext [of "aenter (app_tools app)" s1] tools(3) by simp
    obtain tool_evs where te: "trace s3 = trace s2 @ tool_evs" "list_all is_dispatch tool_evs"
      using trace_run_tool_calls [of app request tcs s2] loop by auto
    have t4: "trace s4 = trace s3"
      using trace_run_ext [of "aexit (app_tools app)" s3] tools(5) by simp
    have t5: "trace s' = trace s4
                @ [EvAcomplete (req_messages request @ ?tool_msgs) None
                     (Some (wind_system_prompt app))]"
      using trace_acomplete [of "app_provider app" "req_messages request @ ?tool_msgs" None
              "Some (wind_system_prompt app)" None s4] tools(6)
      by simp
    have calls: "acomplete_calls (new_events app request s)
         = [(req_messages request, Some (combined_tool_schemas app),
             Some (wind_system_prompt app)),
            (req_messages request @ ?tool_msgs, None, Some (wind_system_prompt app))]"
      using c t1 t2 te t4 t5
      by (simp add: new_events_def acomplete_calls_dispatch del: map_map)
    have len: "length ?tool_msgs = length tcs"
      using run_tool_calls_length [OF loop] by simp
    have "map (tr_tool_call_id \<circ> fst) outcomes = map tc_id tcs"
      using loop by (rule tool_call_ids_of_outcomes)
    then have "map Some (map (tr_tool_call_id \<circ> fst) outcomes) = map Some (map tc_id tcs)"
      by simp
    then have ids: "map m_tool_call_id ?tool_msgs = map (\<lambda>tc. Some (tc_id tc)) tcs"
      by (simp add: tool_result_message_def comp_def)
    have roles: "list_all (\<lambda>m. m_role m = ''tool'') ?tool_msgs"
      by (rule tool_result_messages_roles)
    have one: "list_all (\<lambda>m. matching_requests tcs m = 1) ?tool_msgs"
    proof -
      have "\<forall>m \<in> set ?tool_msgs. m_tool_call_id m \<in> set (map m_tool_call_id ?tool_msgs)"
        by simp
      then have "\<forall>m \<in> set ?tool_msgs. matching_requests tcs m = 1"
        using matching_one [OF d] unfolding ids by blast
      then show ?thesis by (simp only: list_all_iff)
    qed
    show ?thesis
      using calls len ids roles one by blast
  qed
qed

theorem tool_messages_follow_requests_witness:
  "r_tools (app_tools_registry mock_app) \<noteq> []
   \<and> (\<exists>resp tool_msgs.
        fst (chat mock_app hello_request initial_state) = Inr resp
      \<and> map tc_id (requested_tool_calls mock_app hello_request initial_state)
          = [''mock_tool_call_1'']
      \<and> acomplete_calls (new_events mock_app hello_request initial_state)
          = [(req_messages hello_request, Some (combined_tool_schemas mock_app),
              Some (wind_system_prompt mock_app)),
             (req_messages hello_request @ tool_msgs, None, Some (wind_system_prompt mock_app))]
      \<and> map m_tool_call_id tool_msgs = [Some ''mock_tool_call_1'']
      \<and> list_all (\<lambda>m. m_role m = ''tool'') tool_msgs
      \<and> list_all (\<lambda>m. matching_requests
                          (requested_tool_calls mock_app hello_request initial_state) m = 1)
           tool_msgs)
   \<and> (\<exists>resp tool_msgs.
        fst (chat (openai_app ''call_1'' ''call_2'') hello_request initial_state) = Inr resp
      \<and> map tc_id (requested_tool_calls (openai_app ''call_1'' ''call_2'') hello_request
                     initial_state)
          = [''call_1'', ''call_2'']
      \<and> acomplete_calls (new_events (openai_app ''call_1'' ''call_2'') hello_request initial_state)
          = [(req_messages hello_request,
              Some (combined_tool_schemas (openai_app ''call_1'' ''call_2'')),
              Some (wind_system_prompt (openai_app ''call_1'' ''call_2''))),
             (req_messages hello_request @ tool_msgs, None,
              Some (wind_system_prompt (openai_app ''call_1'' ''call_2'')))]
      \<and> map m_tool_call_id tool_msgs = [Some ''call_1'', Some ''call_2'']
      \<and> list_all (\<lambda>m. m_role m = ''tool'') tool_msgs
      \<and> list_all (\<lambda>m. matching_requests
                          (requested_tool_calls (openai_app ''call_1'' ''call_2'') hello_request
                             initial_state) m = 1) tool_msgs)"
proof (intro conjI)
  show cat: "r_tools (app_tools_registry mock_app) \<noteq> []"
    by code_simp
  let ?tcs = "requested_tool_calls mock_app hello_request initial_state"
  have "\<not> isl (fst (chat mock_app hello_request initial_state))"
    by code_simp
  then have r: "fst (chat mock_app hello_request initial_state)
                  = Inr (projr (fst (chat mock_app hello_request initial_state)))"
    by (simp add: sum.collapse(2))
  have ids: "map tc_id ?tcs = [''mock_tool_call_1'']"
    by code_simp
  then have ne: "?tcs \<noteq> []" by auto
  from tool_messages_follow_requests [OF r refl ne disjI1 [OF cat]]
  obtain tool_msgs where t:
      "acomplete_calls (new_events mock_app hello_request initial_state)
         = [(req_messages hello_request, Some (combined_tool_schemas mock_app),
             Some (wind_system_prompt mock_app)),
            (req_messages hello_request @ tool_msgs, None, Some (wind_system_prompt mock_app))]"
      "map m_tool_call_id tool_msgs = map (\<lambda>tc. Some (tc_id tc)) ?tcs"
      "list_all (\<lambda>m. m_role m = ''tool'') tool_msgs"
      "list_all (\<lambda>m. matching_requests ?tcs m = 1) tool_msgs"
    by blast
  have "map (\<lambda>tc. Some (tc_id tc)) ?tcs = map Some (map tc_id ?tcs)"
    by simp
  then have m: "map m_tool_call_id tool_msgs = [Some ''mock_tool_call_1'']"
    using t(2) unfolding ids by simp
  show "\<exists>resp tool_msgs.
        fst (chat mock_app hello_request initial_state) = Inr resp
      \<and> map tc_id ?tcs = [''mock_tool_call_1'']
      \<and> acomplete_calls (new_events mock_app hello_request initial_state)
          = [(req_messages hello_request, Some (combined_tool_schemas mock_app),
              Some (wind_system_prompt mock_app)),
             (req_messages hello_request @ tool_msgs, None, Some (wind_system_prompt mock_app))]
      \<and> map m_tool_call_id tool_msgs = [Some ''mock_tool_call_1'']
      \<and> list_all (\<lambda>m. m_role m = ''tool'') tool_msgs
      \<and> list_all (\<lambda>m. matching_requests ?tcs m = 1) tool_msgs"
  proof (intro exI conjI)
    show "fst (chat mock_app hello_request initial_state)
            = Inr (projr (fst (chat mock_app hello_request initial_state)))"
      by (rule r)
    show "map tc_id ?tcs = [''mock_tool_call_1'']" by (rule ids)
    show "acomplete_calls (new_events mock_app hello_request initial_state)
         = [(req_messages hello_request, Some (combined_tool_schemas mock_app),
             Some (wind_system_prompt mock_app)),
            (req_messages hello_request @ tool_msgs, None, Some (wind_system_prompt mock_app))]"
      by (rule t(1))
    show "map m_tool_call_id tool_msgs = [Some ''mock_tool_call_1'']" by (rule m)
    show "list_all (\<lambda>m. m_role m = ''tool'') tool_msgs" by (rule t(3))
    show "list_all (\<lambda>m. matching_requests ?tcs m = 1) tool_msgs" by (rule t(4))
  qed
next
  let ?app = "openai_app ''call_1'' ''call_2''"
  let ?tcs = "requested_tool_calls ?app hello_request initial_state"
  have "\<not> isl (fst (chat ?app hello_request initial_state))"
    by code_simp
  then have r: "fst (chat ?app hello_request initial_state)
                  = Inr (projr (fst (chat ?app hello_request initial_state)))"
    by (simp add: sum.collapse(2))
  have ids: "map tc_id ?tcs = [''call_1'', ''call_2'']"
    by code_simp
  then have ne: "?tcs \<noteq> []" by auto
  have di: "distinct (map tc_id ?tcs)"
    unfolding ids by simp
  from tool_messages_follow_requests [OF r refl ne disjI2 [OF di]]
  obtain tool_msgs where t:
      "acomplete_calls (new_events ?app hello_request initial_state)
         = [(req_messages hello_request, Some (combined_tool_schemas ?app),
             Some (wind_system_prompt ?app)),
            (req_messages hello_request @ tool_msgs, None, Some (wind_system_prompt ?app))]"
      "map m_tool_call_id tool_msgs = map (\<lambda>tc. Some (tc_id tc)) ?tcs"
      "list_all (\<lambda>m. m_role m = ''tool'') tool_msgs"
      "list_all (\<lambda>m. matching_requests ?tcs m = 1) tool_msgs"
    by blast
  have "map (\<lambda>tc. Some (tc_id tc)) ?tcs = map Some (map tc_id ?tcs)"
    by simp
  then have m: "map m_tool_call_id tool_msgs = [Some ''call_1'', Some ''call_2'']"
    using t(2) unfolding ids by simp
  show "\<exists>resp tool_msgs.
        fst (chat ?app hello_request initial_state) = Inr resp
      \<and> map tc_id ?tcs = [''call_1'', ''call_2'']
      \<and> acomplete_calls (new_events ?app hello_request initial_state)
          = [(req_messages hello_request, Some (combined_tool_schemas ?app),
              Some (wind_system_prompt ?app)),
             (req_messages hello_request @ tool_msgs, None, Some (wind_system_prompt ?app))]
      \<and> map m_tool_call_id tool_msgs = [Some ''call_1'', Some ''call_2'']
      \<and> list_all (\<lambda>m. m_role m = ''tool'') tool_msgs
      \<and> list_all (\<lambda>m. matching_requests ?tcs m = 1) tool_msgs"
  proof (intro exI conjI)
    show "fst (chat ?app hello_request initial_state)
            = Inr (projr (fst (chat ?app hello_request initial_state)))"
      by (rule r)
    show "map tc_id ?tcs = [''call_1'', ''call_2'']" by (rule ids)
    show "acomplete_calls (new_events ?app hello_request initial_state)
         = [(req_messages hello_request, Some (combined_tool_schemas ?app),
             Some (wind_system_prompt ?app)),
            (req_messages hello_request @ tool_msgs, None, Some (wind_system_prompt ?app))]"
      by (rule t(1))
    show "map m_tool_call_id tool_msgs = [Some ''call_1'', Some ''call_2'']" by (rule m)
    show "list_all (\<lambda>m. m_role m = ''tool'') tool_msgs" by (rule t(3))
    show "list_all (\<lambda>m. matching_requests ?tcs m = 1) tool_msgs" by (rule t(4))
  qed
qed

subsection \<open>Dispatch\<close>







text \<open>A name that is not a system tool makes \<^verbatim>\<open>tools.call\<close> raise, the state unchanged.\<close>

lemma tools_call_kwargs_unknown:
  assumes "map_of (tool_map (app_tools app)) (tc_name tc) = None"
  shows "\<exists>e. tools_call_kwargs (app_tools app) (tc_name tc) (tc_arguments tc) s = (Inl e, s)
            \<and> is_exception e"
  using assms
  by (cases "tc_arguments tc") (simp_all add: tools_call_kwargs_def tools_call_def)

text \<open>
  Claim C2, as it fails.  For a name the catalog cannot handle (not registered, or
  registered without a handler), \<^verbatim>\<open>handle\<close> does not return a result with status
  \<^verbatim>\<open>error\<close>: it raises \<^verbatim>\<open>ValueError\<close>, as its docstring says.
\<close>

theorem unhandled_name_counterexample:
  "handle example_registry ''web.fly'' (JObj []) None initial_state
     = (Inl (ValueError ''Tool 'web.fly' cannot be handled''), initial_state)
   \<and> \<not> (\<exists>result. fst (handle example_registry ''web.fly'' (JObj []) None initial_state)
                     = Inr result
                   \<and> jget ''status'' result = Some (JStr ''error''))
   \<and> get_tool (add_tool example_registry social_post_v1) ''social.post'' = Some social_post_v1
   \<and> handle (add_tool (new_registry :: nat handler tools_registry) social_post_v1)
        ''social.post'' (JObj []) None initial_state
     = (Inl (ValueError ''Tool 'social.post' cannot be handled''), initial_state)"
proof -
  have a: "handle example_registry ''web.fly'' (JObj []) None initial_state
     = (Inl (ValueError ''Tool 'web.fly' cannot be handled''), initial_state)"
    by (simp add: handle_def can_handle_def example_registry_def register_tool_result
          add_tool_def new_registry_def social_post_v2_def social_list_def)
  have b: "get_tool (add_tool example_registry social_post_v1) ''social.post''
             = Some social_post_v1"
    by (simp add: get_tool_def example_registry_def register_tool_result
          add_tool_def new_registry_def social_post_v2_def social_list_def social_post_v1_def)
  have c: "handle (add_tool (new_registry :: nat handler tools_registry) social_post_v1)
        ''social.post'' (JObj []) None initial_state
     = (Inl (ValueError ''Tool 'social.post' cannot be handled''), initial_state)"
    by (simp add: handle_def can_handle_def add_tool_def new_registry_def social_post_v1_def)
  from a b c show ?thesis by simp
qed

text \<open>
  Claim C2, as amended.  For a name the catalog cannot handle, \<^verbatim>\<open>handle\<close> raises
  \<^verbatim>\<open>ValueError\<close> at once, leaving the world and the trace as they were: no handler is
  invoked.  The orchestrator sends such a call to the system tools instead; when the
  name is not a system tool either, the call is recorded as a \<^verbatim>\<open>tool_error\<close> step with a
  failure result, nothing else changes, and the remaining calls of the turn are
  dispatched as if the call had not been there, its outcome put before theirs.
\<close>

theorem unhandled_name_raises_and_turn_continues:
  assumes "\<not> can_handle (app_tools_registry app) (tc_name tc)"
  shows "handle (app_tools_registry app) (tc_name tc) args context s
           = (Inl (ValueError (''Tool '' @ squote @ tc_name tc @ squote
                               @ '' cannot be handled'')), s)
       \<and> (map_of (tool_map (app_tools app)) (tc_name tc) = None \<longrightarrow>
            (\<exists>msg. run_tool_call app request tc s =
                     (Inr (\<lparr>tr_tool_call_id = tc_id tc, tr_name = tc_name tc,
                            tr_arguments = tc_arguments tc,
                            tr_result = JObj [(''success'', JBool False),
                                              (''error'', JStr msg)]\<rparr>,
                           StepToolError tc msg), s)
                 \<and> run_tool_calls app request (tc # rest) s =
                     (case run_tool_calls app request rest s of
                        (Inl e, s') \<Rightarrow> (Inl e, s')
                      | (Inr rs, s') \<Rightarrow>
                          (Inr ((\<lparr>tr_tool_call_id = tc_id tc, tr_name = tc_name tc,
                                   tr_arguments = tc_arguments tc,
                                   tr_result = JObj [(''success'', JBool False),
                                                     (''error'', JStr msg)]\<rparr>,
                                 StepToolError tc msg) # rs), s'))))"
proof (intro conjI impI)
  show "handle (app_tools_registry app) (tc_name tc) args context s
           = (Inl (ValueError (''Tool '' @ squote @ tc_name tc @ squote
                               @ '' cannot be handled'')), s)"
    using assms by (simp add: handle_def)
next
  assume unknown: "map_of (tool_map (app_tools app)) (tc_name tc) = None"
  then obtain e where
      e: "tools_call_kwargs (app_tools app) (tc_name tc) (tc_arguments tc) s = (Inl e, s)"
         "is_exception e"
    using tools_call_kwargs_unknown by blast
  with assms have r: "run_tool_call app request tc s =
                     (Inr (\<lparr>tr_tool_call_id = tc_id tc, tr_name = tc_name tc,
                            tr_arguments = tc_arguments tc,
                            tr_result = JObj [(''success'', JBool False),
                                              (''error'', JStr (str_exn e))]\<rparr>,
                           StepToolError tc (str_exn e)), s)"
    by (simp add: run_tool_call_def)
  show "\<exists>msg. run_tool_call app request tc s =
                     (Inr (\<lparr>tr_tool_call_id = tc_id tc, tr_name = tc_name tc,
                            tr_arguments = tc_arguments tc,
                            tr_result = JObj [(''success'', JBool False),
                                              (''error'', JStr msg)]\<rparr>,
                           StepToolError tc msg), s)
                 \<and> run_tool_calls app request (tc # rest) s =
                     (case run_tool_calls app request rest s of
                        (Inl e, s') \<Rightarrow> (Inl e, s')
                      | (Inr rs, s') \<Rightarrow>
                          (Inr ((\<lparr>tr_tool_call_id = tc_id tc, tr_name = tc_name tc,
                                   tr_arguments = tc_arguments tc,
                                   tr_result = JObj [(''success'', JBool False),
                                                     (''error'', JStr msg)]\<rparr>,
                                 StepToolError tc msg) # rs), s'))"
    by (intro exI [of _ "str_exn e"]) (simp add: r)
qed

theorem unhandled_name_raises_and_turn_continues_witness:
  "\<not> can_handle (app_tools_registry mock_app) (tc_name fly_call)
   \<and> map_of (tool_map (app_tools mock_app)) (tc_name fly_call) = None
   \<and> handle (app_tools_registry mock_app) (tc_name fly_call) (JObj []) None initial_state
       = (Inl (ValueError ''Tool 'web.fly' cannot be handled''), initial_state)
   \<and> run_tool_call mock_app hello_request fly_call initial_state
       = (Inr (\<lparr>tr_tool_call_id = ''call_3'', tr_name = ''web.fly'', tr_arguments = JObj [],
                 tr_result = JObj [(''success'', JBool False),
                                   (''error'', JStr ''Unknown tool: web.fly'')]\<rparr>,
               StepToolError fly_call ''Unknown tool: web.fly''), initial_state)
   \<and> (\<exists>rs s'. run_tool_calls mock_app hello_request [list_call] initial_state = (Inr rs, s')
        \<and> run_tool_calls mock_app hello_request [fly_call, list_call] initial_state
          = (Inr ((\<lparr>tr_tool_call_id = ''call_3'', tr_name = ''web.fly'', tr_arguments = JObj [],
                     tr_result = JObj [(''success'', JBool False),
                                       (''error'', JStr ''Unknown tool: web.fly'')]\<rparr>,
                   StepToolError fly_call ''Unknown tool: web.fly'') # rs), s'))"
proof -
  have n: "\<not> can_handle (app_tools_registry mock_app) (tc_name fly_call)"
    by code_simp
  have u: "map_of (tool_map (app_tools mock_app)) (tc_name fly_call) = None"
    by (simp add: tool_map_def fly_call_def)
  have r: "run_tool_call mock_app hello_request fly_call initial_state
       = (Inr (\<lparr>tr_tool_call_id = ''call_3'', tr_name = ''web.fly'', tr_arguments = JObj [],
                 tr_result = JObj [(''success'', JBool False),
                                   (''error'', JStr ''Unknown tool: web.fly'')]\<rparr>,
               StepToolError fly_call ''Unknown tool: web.fly''), initial_state)"
    using n u
    by (simp add: run_tool_call_def tools_call_kwargs_def tools_call_def fly_call_def Let_def)
  obtain r1 s1 where l: "run_tool_calls mock_app hello_request [list_call] initial_state = (r1, s1)"
    by (cases "run_tool_calls mock_app hello_request [list_call] initial_state")
  have "\<not> isl (fst (run_tool_calls mock_app hello_request [list_call] initial_state))"
    by code_simp
  with l obtain rs where rs: "r1 = Inr rs"
    by (cases r1) simp_all
  from unhandled_name_raises_and_turn_continues
         [OF n, of "JObj []" None initial_state hello_request "[list_call]"] u
  obtain msg where m:
      "run_tool_call mock_app hello_request fly_call initial_state =
         (Inr (\<lparr>tr_tool_call_id = tc_id fly_call, tr_name = tc_name fly_call,
                tr_arguments = tc_arguments fly_call,
                tr_result = JObj [(''success'', JBool False), (''error'', JStr msg)]\<rparr>,
               StepToolError fly_call msg), initial_state)"
      "run_tool_calls mock_app hello_request [fly_call, list_call] initial_state =
         (case run_tool_calls mock_app hello_request [list_call] initial_state of
            (Inl e, s') \<Rightarrow> (Inl e, s')
          | (Inr rs, s') \<Rightarrow>
              (Inr ((\<lparr>tr_tool_call_id = tc_id fly_call, tr_name = tc_name fly_call,
                       tr_arguments = tc_arguments fly_call,
                       tr_result = JObj [(''success'', JBool False), (''error'', JStr msg)]\<rparr>,
                     StepToolError fly_call msg) # rs), s'))"
    by blast
  from m(1) r have msg: "msg = ''Unknown tool: web.fly''"
    by (simp add: fly_call_def)
  have h: "handle (app_tools_registry mock_app) (tc_name fly_call) (JObj []) None initial_state
       = (Inl (ValueError ''Tool 'web.fly' cannot be handled''), initial_state)"
    using unhandled_name_raises_and_turn_continues
            [OF n, of "JObj []" None initial_state hello_request "[list_call]"]
    by (simp add: fly_call_def)
  have e: "\<exists>rs s'. run_tool_calls mock_app hello_request [list_call] initial_state = (Inr rs, s')
        \<and> run_tool_calls mock_app hello_request [fly_call, list_call] initial_state
          = (Inr ((\<lparr>tr_tool_call_id = ''call_3'', tr_name = ''web.fly'', tr_arguments = JObj [],
                     tr_result = JObj [(''success'', JBool False),
                                       (''error'', JStr ''Unknown tool: web.fly'')]\<rparr>,
                   StepToolError fly_call ''Unknown tool: web.fly'') # rs), s')"
    using m(2) l rs msg by (simp add: fly_call_def)
  show ?thesis
    using n u h r e by (intro conjI)
qed

end
